theory Spec2Isabelle
  imports Complex_Main "HOL-Library.Multiset"
begin

section \<open>Data model\<close>

text \<open>
  The gameplay core of \<^verbatim>\<open>src/main.js\<close>: the classes \<^verbatim>\<open>PerformanceManager\<close>,
  \<^verbatim>\<open>ObjectPool\<close> and the event handlers of \<^verbatim>\<open>GameScene\<close>.

  JavaScript numbers are modelled exactly: counters as \<open>nat\<close> or \<open>int\<close>, quantities that
  are multiplied by decimal constants as \<open>rat\<close>. Rounding of IEEE doubles is not
  modelled. Rendering, sound, tweens and the persistent storage are left out; what the
  handlers read from storage (difficulty, player level, equipped gear) is a field of the
  run state.
\<close>

subsection \<open>Sprites and the object pool\<close>

datatype item_type =
  Regular | Silver | Gold | Giant | Bomb | Freeze | Health | Mystery | Glitch | Multiplier | Virus

text \<open>
  A pooled game object. \<open>itemType = None\<close> is JavaScript's \<^verbatim>\<open>null\<close> (and the
  \<^verbatim>\<open>undefined\<close> of a sprite that was never spawned).
\<close>

record sprite =
  sp_x :: rat
  sp_y :: rat
  sp_active :: bool
  sp_visible :: bool
  sp_speed :: rat
  itemType :: "item_type option"
  sp_value :: int
  affectedByGravity :: bool

type_synonym ref = nat

text \<open>
  \<open>store\<close> holds the objects the pool's factory has constructed; an object reference is its
  index there, so two references are the same object iff they are equal. \<open>pool\<close> and
  \<open>active\<close> are the two arrays of the class, holding references. \<open>warnings\<close> is the log of
  what \<^verbatim>\<open>reportCapacityWarning\<close> has emitted (event and \<^verbatim>\<open>console.warn\<close>), with the
  clock reading of each emission.
\<close>

record ObjectPool =
  store :: "sprite list"
  pool :: "ref list"
  active :: "ref list"
  totalCreated :: nat
  lastWarningTime :: int
  warningInterval :: int
  maxCapacity :: int
  warnings :: "(int \<times> string) list"

definition setActive :: "bool \<Rightarrow> sprite \<Rightarrow> sprite" where
  "setActive b s = s\<lparr>sp_active := b\<rparr>"

definition setVisible :: "bool \<Rightarrow> sprite \<Rightarrow> sprite" where
  "setVisible b s = s\<lparr>sp_visible := b\<rparr>"

text \<open>Applying a method to the object behind a reference.\<close>

definition on_obj :: "ref \<Rightarrow> (sprite \<Rightarrow> sprite) \<Rightarrow> sprite list \<Rightarrow> sprite list" where
  "on_obj r f st = (if r < length st then st[r := f (st ! r)] else st)"

text \<open>
  \<^verbatim>\<open>createManagedObject\<close>: the factory constructs a new object (every factory of the
  repository is \<^verbatim>\<open>this.add.sprite(...)\<close>), so the result is a fresh reference.
  \<open>createFunc\<close> is the value of the object the factory returns.
\<close>

definition createManagedObject :: "sprite \<Rightarrow> ObjectPool \<Rightarrow> ref \<times> ObjectPool" where
  "createManagedObject createFunc p =
     (length (store p),
      p\<lparr>store := store p @ [createFunc], totalCreated := totalCreated p + 1\<rparr>)"

definition hasCapacityAvailable :: "ObjectPool \<Rightarrow> bool" where
  "hasCapacityAvailable p \<longleftrightarrow>
     int (length (active p)) + int (length (pool p)) < maxCapacity p"

definition recycleOldest :: "(sprite \<Rightarrow> sprite) \<Rightarrow> ObjectPool \<Rightarrow> ref option \<times> ObjectPool" where
  "recycleOldest resetFunc p =
     (case active p of
        [] \<Rightarrow> (None, p)
      | oldest # rest \<Rightarrow>
          (Some oldest,
           p\<lparr>active := rest,
             store := on_obj oldest (resetFunc \<circ> setVisible False \<circ> setActive False) (store p)\<rparr>))"

text \<open>
  \<^verbatim>\<open>reportCapacityWarning\<close>; \<open>now\<close> is the value of \<^verbatim>\<open>Date.now()\<close>.
\<close>

definition reportCapacityWarning :: "string \<Rightarrow> int \<Rightarrow> ObjectPool \<Rightarrow> ObjectPool" where
  "reportCapacityWarning message now p =
     (if now - lastWarningTime p < warningInterval p then p
      else p\<lparr>lastWarningTime := now, warnings := warnings p @ [(now, message)]\<rparr>)"

text \<open>
  \<^verbatim>\<open>get()\<close>. Both reads of \<^verbatim>\<open>Date.now()\<close> that one call can make return \<open>now\<close>.
\<close>

definition get :: "sprite \<Rightarrow> (sprite \<Rightarrow> sprite) \<Rightarrow> int \<Rightarrow> ObjectPool \<Rightarrow> ref \<times> ObjectPool" where
  "get createFunc resetFunc now p =
     (let (obj, p1) =
            (if length (pool p) > 0 then (Some (last (pool p)), p\<lparr>pool := butlast (pool p)\<rparr>)
             else if hasCapacityAvailable p then
               (Some (fst (createManagedObject createFunc p)),
                snd (createManagedObject createFunc p))
             else
               (fst (recycleOldest resetFunc p),
                reportCapacityWarning ''Pool at capacity; recycling oldest object.'' now
                  (snd (recycleOldest resetFunc p))));
          (r, p2) =
            (case obj of
               Some r \<Rightarrow> (r, p1)
             | None \<Rightarrow>
                 (fst (createManagedObject createFunc p1),
                  reportCapacityWarning
                    ''Pool exceeded capacity; allocating additional object.'' now
                    (snd (createManagedObject createFunc p1))))
      in (r, p2\<lparr>store := on_obj r (setVisible True \<circ> setActive True) (store p2),
                active := active p2 @ [r]\<rparr>))"

text \<open>
  \<^verbatim>\<open>release(obj)\<close>: \<^verbatim>\<open>indexOf\<close> and \<^verbatim>\<open>splice(index, 1)\<close> remove the first occurrence.
\<close>

definition release :: "(sprite \<Rightarrow> sprite) \<Rightarrow> ref \<Rightarrow> ObjectPool \<Rightarrow> ObjectPool" where
  "release resetFunc obj p =
     (if obj \<in> set (active p) then
        p\<lparr>active := remove1 obj (active p),
          store := on_obj obj (setVisible False \<circ> setActive False \<circ> resetFunc) (store p),
          pool := pool p @ [obj]\<rparr>
      else p)"

definition clear :: "ObjectPool \<Rightarrow> ObjectPool" where
  "clear p = p\<lparr>store := [], active := [], pool := [], totalCreated := 0\<rparr>"

text \<open>
  The constructor. \<open>maxCapacity = None\<close> is a call without that argument
  (\<^verbatim>\<open>typeof maxCapacity !== 'number'\<close>).
\<close>

fun prefill :: "nat \<Rightarrow> sprite \<Rightarrow> ObjectPool \<Rightarrow> ObjectPool" where
  "prefill 0 createFunc p = p"
| "prefill (Suc n) createFunc p =
     (let (r, p1) = createManagedObject createFunc p
      in prefill n createFunc
           (p1\<lparr>store := on_obj r (setVisible False \<circ> setActive False) (store p1),
               pool := pool p1 @ [r]\<rparr>))"

definition new_ObjectPool :: "sprite \<Rightarrow> int \<Rightarrow> int option \<Rightarrow> ObjectPool" where
  "new_ObjectPool createFunc initialSize maxCap =
     (let mc = (case maxCap of Some m \<Rightarrow> m | None \<Rightarrow> initialSize * 2);
          initialCount = min initialSize mc
      in prefill (nat initialCount) createFunc
           \<lparr>store = [], pool = [], active = [], totalCreated = 0, lastWarningTime = 0,
            warningInterval = 2000, maxCapacity = mc, warnings = []\<rparr>)"

text \<open>A sequence of calls on one pool.\<close>

datatype pool_call = Get int | Release ref

fun pool_step :: "sprite \<Rightarrow> (sprite \<Rightarrow> sprite) \<Rightarrow> ObjectPool \<Rightarrow> pool_call \<Rightarrow> ObjectPool" where
  "pool_step createFunc resetFunc p (Get now) = snd (get createFunc resetFunc now p)"
| "pool_step createFunc resetFunc p (Release obj) = release resetFunc obj p"

definition pool_run ::
  "sprite \<Rightarrow> (sprite \<Rightarrow> sprite) \<Rightarrow> ObjectPool \<Rightarrow> pool_call list \<Rightarrow> ObjectPool" where
  "pool_run createFunc resetFunc p calls = foldl (pool_step createFunc resetFunc) p calls"

subsection \<open>The performance controller\<close>

record PerformanceManager =
  frameCount :: nat
  lastTime :: rat
  fps :: nat
  targetFPS :: nat
  qualityLevel :: int
  fpsHistory :: "nat list"
  maxHistoryLength :: nat
  autoOptimize :: bool

definition new_PerformanceManager :: PerformanceManager where
  "new_PerformanceManager =
     \<lparr>frameCount = 0, lastTime = 0, fps = 60, targetFPS = 60, qualityLevel = 1,
      fpsHistory = [], maxHistoryLength = 60, autoOptimize = True\<rparr>"

text \<open>
  \<^verbatim>\<open>adjustQuality\<close>. On an empty history the quotient is \<^verbatim>\<open>0 / 0 = NaN\<close>, and both
  comparisons with \<^verbatim>\<open>NaN\<close> are false. The \<^verbatim>\<open>quality-changed\<close> broadcast of
  \<^verbatim>\<open>applyQualitySettings\<close> changes nothing in the controller and is left out.
\<close>

definition adjustQuality :: "PerformanceManager \<Rightarrow> PerformanceManager" where
  "adjustQuality pm =
     (if fpsHistory pm = [] then pm
      else
        let avgFPS = (of_nat (foldl (+) 0 (fpsHistory pm)) :: rat)
                       / of_nat (length (fpsHistory pm))
        in if avgFPS < 40 \<and> qualityLevel pm > 0 then pm\<lparr>qualityLevel := qualityLevel pm - 1\<rparr>
           else if avgFPS > 58 \<and> qualityLevel pm < 2 then
             pm\<lparr>qualityLevel := qualityLevel pm + 1\<rparr>
           else pm)"

definition update :: "rat \<Rightarrow> PerformanceManager \<Rightarrow> PerformanceManager" where
  "update time pm =
     (let pm1 = pm\<lparr>frameCount := frameCount pm + 1\<rparr>
      in if time - lastTime pm1 \<ge> 1000 then
           let pm2 = pm1\<lparr>fps := frameCount pm1, frameCount := 0, lastTime := time,
                         fpsHistory := fpsHistory pm1 @ [frameCount pm1]\<rparr>;
               pm3 = (if length (fpsHistory pm2) > maxHistoryLength pm2
                      then pm2\<lparr>fpsHistory := tl (fpsHistory pm2)\<rparr> else pm2)
           in if autoOptimize pm3 \<and> length (fpsHistory pm3) \<ge> 10 then adjustQuality pm3
              else pm3
         else pm1)"

definition pm_run :: "rat list \<Rightarrow> PerformanceManager" where
  "pm_run ts = foldl (\<lambda>pm t. update t pm) new_PerformanceManager ts"

text \<open>The arithmetic mean of a sample window, as the specification words it.\<close>

definition arithmetic_mean :: "nat list \<Rightarrow> rat" where
  "arithmetic_mean xs = of_nat (sum_list xs) / of_nat (length xs)"

subsection \<open>The leveling system\<close>

datatype perk_type = PSpeed | PXp | PCurrency | PShield | PCombo | PMaster | PLegendary

definition getLevelPerks :: "int \<Rightarrow> (perk_type \<times> rat) list" where
  "getLevelPerks lvl =
     (if lvl \<ge> 3 then [(PSpeed, 5/100)] else []) @
     (if lvl \<ge> 5 then [(PXp, 10/100)] else []) @
     (if lvl \<ge> 7 then [(PCurrency, 5/100)] else []) @
     (if lvl \<ge> 10 then [(PSpeed, 5/100)] else []) @
     (if lvl \<ge> 12 then [(PShield, 1)] else []) @
     (if lvl \<ge> 15 then [(PXp, 10/100)] else []) @
     (if lvl \<ge> 17 then [(PCurrency, 5/100)] else []) @
     (if lvl \<ge> 20 then [(PSpeed, 5/100)] else []) @
     (if lvl \<ge> 22 then [(PCombo, 25/100)] else []) @
     (if lvl \<ge> 25 then [(PMaster, 15/100)] else []) @
     (if lvl \<ge> 30 then [(PLegendary, 25/100)] else [])"

record bonuses =
  speedMultiplier :: rat
  xpMultiplier :: rat
  currencyMultiplier :: rat
  shieldBonus :: rat
  comboMultiplier :: rat

fun apply_perk :: "bonuses \<Rightarrow> perk_type \<times> rat \<Rightarrow> bonuses" where
  "apply_perk b (PSpeed, v) = b\<lparr>speedMultiplier := speedMultiplier b + v\<rparr>"
| "apply_perk b (PXp, v) = b\<lparr>xpMultiplier := xpMultiplier b + v\<rparr>"
| "apply_perk b (PCurrency, v) = b\<lparr>currencyMultiplier := currencyMultiplier b + v\<rparr>"
| "apply_perk b (PShield, v) = b\<lparr>shieldBonus := shieldBonus b + v\<rparr>"
| "apply_perk b (PCombo, v) = b\<lparr>comboMultiplier := comboMultiplier b + v\<rparr>"
| "apply_perk b (PMaster, v) =
     b\<lparr>speedMultiplier := speedMultiplier b + v,
       currencyMultiplier := currencyMultiplier b + v,
       comboMultiplier := comboMultiplier b + v\<rparr>"
| "apply_perk b (PLegendary, v) =
     b\<lparr>speedMultiplier := speedMultiplier b + v,
       xpMultiplier := xpMultiplier b + v,
       currencyMultiplier := currencyMultiplier b + v,
       comboMultiplier := comboMultiplier b + v\<rparr>"

definition getStatBonuses :: "int \<Rightarrow> bonuses" where
  "getStatBonuses lvl =
     foldl apply_perk
       \<lparr>speedMultiplier = 1, xpMultiplier = 1, currencyMultiplier = 1, shieldBonus = 0,
        comboMultiplier = 1\<rparr>
       (getLevelPerks lvl)"

subsection \<open>The run state of the game scene\<close>

datatype powerup = Shield | Magnet | Slowmo | Timewarp | Converter | Hyperdash | Blackhole

text \<open>
  The callbacks that the handlers schedule with \<^verbatim>\<open>this.time.delayedCall\<close>. Callbacks that
  only touch the display (camera shake, text and emitter disposal, the empty callback of
  \<^verbatim>\<open>spawnItem\<close>) are left out.
\<close>

datatype callback =
    ResetScoreMultiplier
  | RestoreItemSpeed rat
  | EndGlitch
  | EndVirus
  | EndChaos
  | EndOvercharge
  | ExpirePowerup powerup
  | EndBlackhole

text \<open>
  The fields of \<^verbatim>\<open>GameScene\<close> that the handlers read and write. \<open>spawnTimerDelay\<close> is
  \<^verbatim>\<open>this.spawnTimer.delay\<close>; \<open>timers\<close> are the pending delayed calls (delay, callback);
  \<open>itemPool\<close> is \<^verbatim>\<open>this.getPool('items')\<close>, whose \<open>active\<close> array is \<^verbatim>\<open>this.items\<close>
  (the same array object); \<open>difficulty\<close>, \<open>playerLevel\<close> and \<open>equippedUtility\<close> are what
  the storage manager returns during the run; \<open>terminal\<close> records that \<^verbatim>\<open>gameOver()\<close>
  started the game-over scene.
\<close>

record GameScene =
  score :: int
  level :: int
  lives :: int
  combo :: int
  maxCombo :: int
  goldCaught :: int
  bombsDestroyed :: int
  perfectStreak :: int
  itemsCaught :: int
  earnedCurrency :: int
  scoreMultiplier :: int
  overcharge :: int
  missedItems :: int
  itemSpeed :: rat
  spawnRate :: rat
  performanceScore :: rat
  missStreak :: int
  isChaosMode :: bool
  isDashing :: bool
  glitchActive :: bool
  virusActive :: bool
  overchargeActive :: bool
  blackHoleActive :: bool
  controlsReversed :: bool
  activePowerups :: "powerup set"
  shieldUses :: rat
  dashCooldown :: rat
  recentCatches :: "(int \<times> int) list"
  lastCatchTime :: "int option"
  spawnTimerDelay :: rat
  timers :: "(rat \<times> callback) list"
  itemPool :: ObjectPool
  performanceManager :: PerformanceManager
  difficulty :: string
  playerLevel :: int
  equippedUtility :: string
  terminal :: bool

subsection \<open>Set-up of a run\<close>

text \<open>
  The factory and the reset function of the item pool (\<^verbatim>\<open>setupObjectPools\<close>). A new
  sprite is active and, after \<^verbatim>\<open>setVisible(false)\<close>, invisible; the fields that
  JavaScript leaves \<^verbatim>\<open>undefined\<close> are \<open>0\<close>, \<open>None\<close> and \<open>False\<close> here.
\<close>

definition item_createFunc :: sprite where
  "item_createFunc =
     \<lparr>sp_x = 0, sp_y = 0, sp_active = True, sp_visible = False, sp_speed = 0,
      itemType = None, sp_value = 0, affectedByGravity = False\<rparr>"

definition item_resetFunc :: "sprite \<Rightarrow> sprite" where
  "item_resetFunc it =
     it\<lparr>sp_x := 0, sp_y := - 100, sp_visible := False, sp_speed := 0, itemType := None,
        sp_value := 0\<rparr>"

text \<open>
  \<^verbatim>\<open>setupObjectPools\<close>, for the item pool:
  \<^verbatim>\<open>sizes[qualityLevel] || sizes[1]\<close> with \<^verbatim>\<open>qualityLevel = pm.qualityLevel || 1\<close>.
\<close>

definition setupObjectPools :: "PerformanceManager \<Rightarrow> ObjectPool" where
  "setupObjectPools pm =
     (let ql = (if qualityLevel pm = 0 then 1 else qualityLevel pm);
          size = (if ql = 2 then 30 else 25)
      in new_ObjectPool item_createFunc size None)"

record upgrades =
  extraLife :: bool
  startShield :: bool

text \<open>
  \<^verbatim>\<open>create()\<close>: \<^verbatim>\<open>resetGameState\<close>, the lives and shield of the upgrades,
  \<^verbatim>\<open>setDifficultyParams\<close>, the pools and the spawn timer.
\<close>

definition create :: "upgrades \<Rightarrow> string \<Rightarrow> int \<Rightarrow> string \<Rightarrow> GameScene" where
  "create upg diff plevel utility =
     (let speed = (if diff = ''easy'' then 150 else if diff = ''hard'' then 250 else 200);
          spawn = (if diff = ''easy'' then 2000 else if diff = ''hard'' then 1000 else 1500);
          pm = new_PerformanceManager
      in \<lparr>score = 0, level = 1, lives = (if extraLife upg then 4 else 3), combo = 0,
          maxCombo = 0, goldCaught = 0, bombsDestroyed = 0, perfectStreak = 0,
          itemsCaught = 0, earnedCurrency = 0, scoreMultiplier = 1, overcharge = 0,
          missedItems = 0, itemSpeed = speed, spawnRate = spawn, performanceScore = 0,
          missStreak = 0, isChaosMode = False, isDashing = False, glitchActive = False,
          virusActive = False, overchargeActive = False, blackHoleActive = False,
          controlsReversed = False,
          activePowerups = (if startShield upg then {Shield} else {}),
          shieldUses = (if startShield upg then 3 + shieldBonus (getStatBonuses plevel) else 0),
          dashCooldown = 0, recentCatches = [], lastCatchTime = None,
          spawnTimerDelay = spawn, timers = [], itemPool = setupObjectPools pm,
          performanceManager = pm, difficulty = diff, playerLevel = plevel,
          equippedUtility = utility, terminal = False\<rparr>)"


subsection \<open>Handlers of the game scene\<close>

text \<open>
  \<^verbatim>\<open>gameOver()\<close>: the pools are cleared and the game-over scene is started. The flush of
  the run statistics to storage is outside the model.
\<close>

definition gameOver :: "GameScene \<Rightarrow> GameScene" where
  "gameOver s = s\<lparr>itemPool := clear (itemPool s), terminal := True\<rparr>"

definition release_item :: "ref \<Rightarrow> GameScene \<Rightarrow> GameScene" where
  "release_item item s = s\<lparr>itemPool := release item_resetFunc item (itemPool s)\<rparr>"

definition updatePerformanceScore :: "GameScene \<Rightarrow> GameScene" where
  "updatePerformanceScore s =
     (let recentValue = foldl (\<lambda>sum c. sum + snd c) 0 (recentCatches s);
          catchRate = (of_nat (length (recentCatches s)) :: rat) / 10;
          ps = min 10 ((catchRate + of_int (combo s) * (1/10) + of_int recentValue * (1/100)) / 3);
          speedAdjustment = 1 + ps * (5/100);
          baseSpeed = (if difficulty s = ''easy'' then 150
                       else if difficulty s = ''hard'' then 250 else 200);
          spawnAdjustment = max (7/10) (1 - ps * (3/100));
          baseSpawn = (if difficulty s = ''easy'' then 2000
                       else if difficulty s = ''hard'' then 1000 else 1500);
          rate = max 500 (baseSpawn * spawnAdjustment)
      in s\<lparr>performanceScore := ps, itemSpeed := baseSpeed * speedAdjustment,
           spawnRate := rate, spawnTimerDelay := rate\<rparr>)"

definition activateChaosMode :: "GameScene \<Rightarrow> GameScene" where
  "activateChaosMode s = s\<lparr>isChaosMode := True, timers := timers s @ [(10000, EndChaos)]\<rparr>"

definition levelUp :: "GameScene \<Rightarrow> GameScene" where
  "levelUp s =
     (let s1 = s\<lparr>level := level s + 1\<rparr>;
          s2 = s1\<lparr>itemSpeed := itemSpeed s1 + 20\<rparr>;
          s3 = s2\<lparr>spawnRate := max 500 (spawnRate s2 - 100)\<rparr>;
          s4 = s3\<lparr>spawnTimerDelay := spawnRate s3\<rparr>
      in if level s4 mod 5 = 0 then activateChaosMode s4 else s4)"

definition activateFreeze :: "GameScene \<Rightarrow> GameScene" where
  "activateFreeze s =
     s\<lparr>itemSpeed := itemSpeed s * (2/10),
       timers := timers s @ [(4000, RestoreItemSpeed (itemSpeed s))]\<rparr>"

definition activateGlitchEffect :: "GameScene \<Rightarrow> GameScene" where
  "activateGlitchEffect s =
     (if glitchActive s then s
      else s\<lparr>glitchActive := True, controlsReversed := True,
             timers := timers s @ [(4000, EndGlitch)]\<rparr>)"

definition activateMultiplier :: "GameScene \<Rightarrow> GameScene" where
  "activateMultiplier s =
     s\<lparr>scoreMultiplier := 2, timers := timers s @ [(5000, ResetScoreMultiplier)]\<rparr>"

definition activateVirusEffect :: "GameScene \<Rightarrow> GameScene" where
  "activateVirusEffect s =
     (if virusActive s then s
      else s\<lparr>virusActive := True, timers := timers s @ [(5000, EndVirus)]\<rparr>)"

text \<open>
  \<^verbatim>\<open>activateMystery\<close>; \<open>d\<close> is the value of \<^verbatim>\<open>Phaser.Math.Between(0, 3)\<close>, the index of
  the outcome.
\<close>

definition activateMystery :: "int \<Rightarrow> ref \<Rightarrow> GameScene \<Rightarrow> GameScene" where
  "activateMystery d item s =
     release_item item
       (if d = 0 then s\<lparr>score := score s + 100\<rparr>
        else if d = 1 then s\<lparr>lives := min (lives s + 1) 5\<rparr>
        else if d = 2 then
          s\<lparr>scoreMultiplier := 3, timers := timers s @ [(3000, ResetScoreMultiplier)]\<rparr>
        else s\<lparr>earnedCurrency := earnedCurrency s + 50\<rparr>)"

definition activateOvercharge :: "GameScene \<Rightarrow> GameScene" where
  "activateOvercharge s =
     (if overcharge s < 100 \<or> overchargeActive s then s
      else s\<lparr>overcharge := 0, overchargeActive := True,
             timers := timers s @ [(8000, EndOvercharge)]\<rparr>)"

text \<open>
  The scoring path of \<^verbatim>\<open>catchItem\<close>, everything after the type dispatch, is a sequence
  of statements on the run state. Each group of statements is one step here;
  \<open>catchItem_score\<close> runs them in the order of the source. \<open>now\<close> is the value of
  \<^verbatim>\<open>Date.now()\<close> during the call.
\<close>

text \<open>\<^verbatim>\<open>this.itemsCaught++; this.combo++;\<close>\<close>

definition count_catch :: "GameScene \<Rightarrow> GameScene" where
  "count_catch s = s\<lparr>itemsCaught := itemsCaught s + 1, combo := combo s + 1\<rparr>"

text \<open>
  \<^verbatim>\<open>this.recentCatches.push({time: Date.now(), value: item.value});\<close> and the filter that
  keeps the entries younger than 10000 ms.
\<close>

definition push_catch :: "int \<Rightarrow> int \<Rightarrow> GameScene \<Rightarrow> GameScene" where
  "push_catch now v s =
     s\<lparr>recentCatches := filter (\<lambda>c. now - fst c < 10000) (recentCatches s @ [(now, v)])\<rparr>"

text \<open>
  \<^verbatim>\<open>this.perfectStreak++; this.maxCombo = Math.max(this.maxCombo, this.combo);
  this.missStreak = 0;\<close>
\<close>

definition streak_catch :: "GameScene \<Rightarrow> GameScene" where
  "streak_catch s =
     s\<lparr>perfectStreak := perfectStreak s + 1, maxCombo := max (maxCombo s) (combo s),
       missStreak := 0\<rparr>"

definition gold_catch :: "sprite \<Rightarrow> GameScene \<Rightarrow> GameScene" where
  "gold_catch it s =
     (if itemType it = Some Gold then s\<lparr>goldCaught := goldCaught s + 1\<rparr> else s)"

definition charge_catch :: "sprite \<Rightarrow> GameScene \<Rightarrow> GameScene" where
  "charge_catch it s =
     (let overchargeGain = (if itemType it = Some Gold then 15
                            else if itemType it = Some Giant then 25 else 5)
      in s\<lparr>overcharge := min 100 (overcharge s + overchargeGain)\<rparr>)"

text \<open>
  The points of the catch and the currency earned from them, from
  \<^verbatim>\<open>const playerLevel = ...\<close> to \<^verbatim>\<open>this.earnedCurrency += ...\<close>.
\<close>

definition award_points :: "sprite \<Rightarrow> GameScene \<Rightarrow> GameScene" where
  "award_points it s =
     (let bon = getStatBonuses (playerLevel s);
          comboMult = min (combo s div 5 + 1) 5;
          overchargeBonus = (if overchargeActive s then 2 else 1);
          fortuneBonus = (if equippedUtility s = ''fortune_aura'' then 3/2 else 1);
          points = \<lfloor>of_int (sp_value it) * of_int (level s) * of_int comboMult
                      * of_int (scoreMultiplier s) * overchargeBonus * fortuneBonus
                      * comboMultiplier bon\<rfloor>;
          currencyMult = (if equippedUtility s = ''fortune_aura'' then 2 else 1)
                           * currencyMultiplier bon
      in s\<lparr>score := score s + points,
           earnedCurrency := earnedCurrency s + \<lfloor>of_int points / 20 * currencyMult\<rfloor>\<rparr>)"

definition stamp_catch :: "int \<Rightarrow> GameScene \<Rightarrow> GameScene" where
  "stamp_catch now s = s\<lparr>lastCatchTime := Some now\<rparr>"

text \<open>\<^verbatim>\<open>if (this.score % 100 === 0 && this.score > 0) this.levelUp();\<close>\<close>

definition check_levelUp :: "GameScene \<Rightarrow> GameScene" where
  "check_levelUp s = (if score s mod 100 = 0 \<and> score s > 0 then levelUp s else s)"

text \<open>\<^verbatim>\<open>checkAchievements\<close>, the last statement, only writes to storage.\<close>

definition catchItem_score :: "int \<Rightarrow> ref \<Rightarrow> GameScene \<Rightarrow> GameScene" where
  "catchItem_score now item s =
     (let it = store (itemPool s) ! item;
          s1 = count_catch s;
          s2 = push_catch now (sp_value it) s1;
          s3 = updatePerformanceScore s2;
          s4 = streak_catch s3;
          s5 = gold_catch it s4;
          s6 = charge_catch it s5;
          s7 = award_points it s6;
          s8 = stamp_catch now s7;
          s9 = release_item item s8
      in check_levelUp s9)"

text \<open>
  The bomb branches of \<^verbatim>\<open>catchItem\<close>: with the converter the item becomes a gold item
  and goes on to the scoring path; without it the catch costs a life and the combo.
\<close>

definition convert_bomb :: "ref \<Rightarrow> GameScene \<Rightarrow> GameScene" where
  "convert_bomb item s =
     s\<lparr>itemPool := (itemPool s)
         \<lparr>store := on_obj item (\<lambda>i. i\<lparr>itemType := Some Gold, sp_value := 50\<rparr>)
                     (store (itemPool s))\<rparr>\<rparr>"

definition bomb_hit :: "ref \<Rightarrow> GameScene \<Rightarrow> GameScene" where
  "bomb_hit item s =
     (let s1 = s\<lparr>lives := lives s - 1, combo := 0, missStreak := 0, perfectStreak := 0\<rparr>;
          s2 = release_item item s1
      in if lives s2 \<le> 0 then gameOver s2 else s2)"

text \<open>
  \<^verbatim>\<open>catchItem(item)\<close>. The handlers are called with objects of the item pool; a reference
  beyond the store denotes no object, and the model leaves the state alone there. \<open>d\<close> is
  the draw of \<^verbatim>\<open>activateMystery\<close>.
\<close>

definition catchItem :: "int \<Rightarrow> int \<Rightarrow> ref \<Rightarrow> GameScene \<Rightarrow> GameScene" where
  "catchItem now d item s =
     (if item \<ge> length (store (itemPool s)) then s
      else
        let ty = itemType (store (itemPool s) ! item)
        in if ty = Some Freeze then release_item item (activateFreeze s)
           else if ty = Some Health then
             release_item item (s\<lparr>lives := min (lives s + 1) 5\<rparr>)
           else if ty = Some Mystery then activateMystery d item s
           else if ty = Some Bomb then
             (if Converter \<in> activePowerups s then catchItem_score now item (convert_bomb item s)
              else bomb_hit item s)
           else if ty = Some Glitch then catchItem_score now item (activateGlitchEffect s)
           else if ty = Some Multiplier then catchItem_score now item (activateMultiplier s)
           else if ty = Some Virus then release_item item (activateVirusEffect s)
           else catchItem_score now item s)"

definition missItem :: "ref \<Rightarrow> GameScene \<Rightarrow> GameScene" where
  "missItem item s =
     (if item \<ge> length (store (itemPool s)) then s
      else if itemType (store (itemPool s) ! item) = Some Bomb then release_item item s
      else if Shield \<in> activePowerups s then
        (let s1 = s\<lparr>shieldUses := shieldUses s - 1\<rparr>;
             s2 = (if shieldUses s1 \<le> 0 then s1\<lparr>activePowerups := activePowerups s1 - {Shield}\<rparr>
                   else s1)
         in release_item item s2)
      else
        (let s1 = s\<lparr>combo := 0, perfectStreak := 0, missStreak := missStreak s + 1,
                    lives := lives s - 1, missedItems := missedItems s + 1\<rparr>;
             s2 = updatePerformanceScore s1;
             s3 = release_item item s2
         in if lives s3 \<le> 0 then gameOver s3 else s3))"

text \<open>
  The branch of \<^verbatim>\<open>update\<close> for an active spike hazard under the player.
\<close>

definition spikeHit :: "GameScene \<Rightarrow> GameScene" where
  "spikeHit s =
     (if isDashing s then s
      else if Shield \<notin> activePowerups s then
        (let s1 = s\<lparr>lives := lives s - 1\<rparr> in if lives s1 \<le> 0 then gameOver s1 else s1)
      else
        (let s1 = s\<lparr>shieldUses := shieldUses s - 1\<rparr>
         in if shieldUses s1 \<le> 0 then s1\<lparr>activePowerups := activePowerups s1 - {Shield}\<rparr>
            else s1))"

text \<open>
  \<^verbatim>\<open>collectPowerup\<close> and \<^verbatim>\<open>destroyBomb\<close>, without the power-up and projectile pools.
\<close>

definition collectPowerup :: "powerup \<Rightarrow> GameScene \<Rightarrow> GameScene" where
  "collectPowerup ty s =
     (let s1 = s\<lparr>activePowerups := insert ty (activePowerups s)\<rparr>
      in case ty of
           Shield \<Rightarrow> s1\<lparr>shieldUses := 3 + shieldBonus (getStatBonuses (playerLevel s1))\<rparr>
         | Magnet \<Rightarrow> s1\<lparr>timers := timers s1 @ [(5000, ExpirePowerup Magnet)]\<rparr>
         | Slowmo \<Rightarrow> s1\<lparr>timers := timers s1 @ [(4000, ExpirePowerup Slowmo)]\<rparr>
         | Timewarp \<Rightarrow> s1\<lparr>timers := timers s1 @ [(6000, ExpirePowerup Timewarp)]\<rparr>
         | Converter \<Rightarrow> s1\<lparr>timers := timers s1 @ [(8000, ExpirePowerup Converter)]\<rparr>
         | Hyperdash \<Rightarrow>
             s1\<lparr>dashCooldown := 0, timers := timers s1 @ [(10000, ExpirePowerup Hyperdash)]\<rparr>
         | Blackhole \<Rightarrow>
             s1\<lparr>blackHoleActive := True, timers := timers s1 @ [(5000, EndBlackhole)]\<rparr>)"

definition destroyBomb :: "ref \<Rightarrow> GameScene \<Rightarrow> GameScene" where
  "destroyBomb bomb s =
     release_item bomb
       (s\<lparr>score := score s + 25, bombsDestroyed := bombsDestroyed s + 1,
          earnedCurrency := earnedCurrency s + 2\<rparr>)"

fun run_callback :: "callback \<Rightarrow> GameScene \<Rightarrow> GameScene" where
  "run_callback ResetScoreMultiplier s = s\<lparr>scoreMultiplier := 1\<rparr>"
| "run_callback (RestoreItemSpeed v) s = s\<lparr>itemSpeed := v\<rparr>"
| "run_callback EndGlitch s = s\<lparr>glitchActive := False, controlsReversed := False\<rparr>"
| "run_callback EndVirus s = s\<lparr>virusActive := False\<rparr>"
| "run_callback EndChaos s = s\<lparr>isChaosMode := False\<rparr>"
| "run_callback EndOvercharge s = s\<lparr>overchargeActive := False\<rparr>"
| "run_callback (ExpirePowerup p) s = s\<lparr>activePowerups := activePowerups s - {p}\<rparr>"
| "run_callback EndBlackhole s =
     s\<lparr>blackHoleActive := False, activePowerups := activePowerups s - {Blackhole}\<rparr>"

text \<open>A pending delayed call fires and is removed.\<close>

definition fire_timer :: "nat \<Rightarrow> GameScene \<Rightarrow> GameScene" where
  "fire_timer i s =
     (if i < length (timers s) then
        run_callback (snd (timers s ! i)) (s\<lparr>timers := take i (timers s) @ drop (Suc i) (timers s)\<rparr>)
      else s)"

subsection \<open>Spawning\<close>

text \<open>
  The type, value and speed that \<^verbatim>\<open>spawnItem\<close> picks for \<^verbatim>\<open>rand = Math.random()\<close>.
\<close>

definition spawn_choice :: "rat \<Rightarrow> rat \<Rightarrow> item_type \<times> int \<times> rat" where
  "spawn_choice rand spd =
     (if rand < 13/100 then (Bomb, - 50, spd)
      else if rand < 22/100 then (Gold, 50, spd)
      else if rand < 35/100 then (Silver, 20, spd)
      else if rand < 40/100 then (Giant, 100, spd * (6/10))
      else if rand < 43/100 then (Glitch, 30, spd)
      else if rand < 46/100 then (Multiplier, 20, spd)
      else if rand < 48/100 then (Virus, - 30, spd)
      else if rand < 50/100 then (Freeze, 25, spd)
      else if rand < 52/100 then (Health, 0, spd)
      else if rand < 54/100 then (Mystery, 0, spd)
      else (Regular, 10, spd))"

text \<open>
  One round of the loop of \<^verbatim>\<open>spawnItem\<close>: \<open>x\<close> is the value of
  \<^verbatim>\<open>Phaser.Math.Between(50, width - 50)\<close>, \<open>rand\<close> that of \<^verbatim>\<open>Math.random()\<close>.
\<close>

definition spawn_one :: "rat \<Rightarrow> rat \<Rightarrow> int \<Rightarrow> GameScene \<Rightarrow> GameScene" where
  "spawn_one x rand now s =
     (let (ty, itemValue, spd) = spawn_choice rand (itemSpeed s);
          (item, p) = get item_createFunc item_resetFunc now (itemPool s)
      in s\<lparr>itemPool := p
             \<lparr>store := on_obj item
                         (\<lambda>i. i\<lparr>sp_x := x, sp_y := - 30, sp_speed := spd, itemType := Some ty,
                                sp_value := itemValue, affectedByGravity := True\<rparr>)
                         (store p)\<rparr>\<rparr>)"

fun spawn_loop ::
  "nat \<Rightarrow> nat \<Rightarrow> (nat \<Rightarrow> rat) \<Rightarrow> (nat \<Rightarrow> rat) \<Rightarrow> int \<Rightarrow> GameScene \<Rightarrow> GameScene" where
  "spawn_loop 0 i xs rands now s = s"
| "spawn_loop (Suc k) i xs rands now s =
     spawn_loop k (Suc i) xs rands now (spawn_one (xs i) (rands i) now s)"

text \<open>
  \<^verbatim>\<open>spawnItem()\<close>. \<open>n12\<close> is the value of \<^verbatim>\<open>Phaser.Math.Between(1, 2)\<close>, read in chaos
  mode only; \<open>xs i\<close> and \<open>rands i\<close> are the draws of round \<open>i\<close>. The array
  \<^verbatim>\<open>this.items\<close> that the code measures is the array \<^verbatim>\<open>active\<close> of the item pool, assigned
  once in \<^verbatim>\<open>create()\<close> and changed in place by \<^verbatim>\<open>get\<close> and \<^verbatim>\<open>release\<close>; only
  \<^verbatim>\<open>clear()\<close>, called when the run ends, replaces it.
\<close>

definition spawnItem ::
  "int \<Rightarrow> (nat \<Rightarrow> rat) \<Rightarrow> (nat \<Rightarrow> rat) \<Rightarrow> int \<Rightarrow> GameScene \<Rightarrow> GameScene" where
  "spawnItem n12 xs rands now s =
     (let spawnCount = (if isChaosMode s then n12 else 1);
          maxItems = (if qualityLevel (performanceManager s) = 0 then 8 else 15)
      in if int (length (active (itemPool s))) \<ge> maxItems then s
         else spawn_loop (nat spawnCount) 0 xs rands now s)"

subsection \<open>Runs of the scene\<close>

datatype event =
    SpawnItem int "nat \<Rightarrow> rat" "nat \<Rightarrow> rat" int
  | CatchItem int int ref
  | MissItem ref
  | SpikeHit
  | CollectPowerup powerup
  | DestroyBomb ref
  | SpikeItem ref
  | ActivateOvercharge
  | TimerFires nat
  | Frame rat

fun scene_step :: "GameScene \<Rightarrow> event \<Rightarrow> GameScene" where
  "scene_step s (SpawnItem n12 xs rands now) = spawnItem n12 xs rands now s"
| "scene_step s (CatchItem now d item) = catchItem now d item s"
| "scene_step s (MissItem item) = missItem item s"
| "scene_step s SpikeHit = spikeHit s"
| "scene_step s (CollectPowerup ty) = collectPowerup ty s"
| "scene_step s (DestroyBomb bomb) = destroyBomb bomb s"
| "scene_step s (SpikeItem item) = release_item item s"
| "scene_step s ActivateOvercharge = activateOvercharge s"
| "scene_step s (TimerFires i) = fire_timer i s"
| "scene_step s (Frame time) = s\<lparr>performanceManager := update time (performanceManager s)\<rparr>"

definition scene_run :: "GameScene \<Rightarrow> event list \<Rightarrow> GameScene" where
  "scene_run s evs = foldl scene_step s evs"


subsection \<open>Invariants\<close>

text \<open>
  The two arrays of a pool together hold every reference the pool has created exactly
  once, and \<open>totalCreated\<close> counts the stored objects.
\<close>

definition pool_inv :: "ObjectPool \<Rightarrow> bool" where
  "pool_inv p \<longleftrightarrow>
     mset (active p @ pool p) = mset [0..<length (store p)] \<and>
     totalCreated p = length (store p)"

text \<open>
  Emitted warnings are at least 2000 ms apart, and none is later than \<open>lastWarningTime\<close>.
\<close>

definition warn_inv :: "ObjectPool \<Rightarrow> bool" where
  "warn_inv p \<longleftrightarrow>
     warningInterval p = 2000 \<and>
     sorted_wrt (\<lambda>a b. fst a + 2000 \<le> fst b) (warnings p) \<and>
     list_all (\<lambda>w. fst w \<le> lastWarningTime p) (warnings p)"

text \<open>The pool never holds more objects than its capacity, or one if the capacity is below one.\<close>

definition cap_inv :: "ObjectPool \<Rightarrow> bool" where
  "cap_inv p \<longleftrightarrow> int (length (store p)) \<le> max 1 (maxCapacity p)"


subsection \<open>Example pools\<close>

text \<open>
  A pool with two idle objects, the same pool after one \<^verbatim>\<open>get\<close>, an empty pool of
  capacity one, that pool after one \<^verbatim>\<open>get\<close> (at capacity), and a pool of capacity zero.
\<close>

definition idle_pool :: ObjectPool where
  "idle_pool = new_ObjectPool item_createFunc 2 (Some 2)"

definition busy_pool :: ObjectPool where
  "busy_pool = snd (get item_createFunc item_resetFunc 5000 idle_pool)"

definition fresh_pool :: ObjectPool where
  "fresh_pool = new_ObjectPool item_createFunc 0 (Some 1)"

definition full_pool :: ObjectPool where
  "full_pool = snd (get item_createFunc item_resetFunc 5000 fresh_pool)"

definition zero_pool :: ObjectPool where
  "zero_pool = new_ObjectPool item_createFunc 0 (Some 0)"

subsection \<open>Example scenes\<close>

text \<open>
  A run just created with the default settings, and \<^verbatim>\<open>spawnItem\<close> outside chaos mode with
  \<open>r\<close> for \<^verbatim>\<open>Math.random()\<close>.
\<close>

definition start_scene :: GameScene where
  "start_scene = create \<lparr>extraLife = False, startShield = False\<rparr> ''normal'' 1 ''none''"

definition spawn_of :: "rat \<Rightarrow> GameScene \<Rightarrow> GameScene" where
  "spawn_of r s = spawnItem 1 (\<lambda>_. 100) (\<lambda>_. r) 0 s"

definition bomb_scene :: GameScene where
  "bomb_scene = spawn_of (5/100) start_scene"

definition three_regular :: GameScene where
  "three_regular = spawn_of (9/10) (spawn_of (9/10) (spawn_of (9/10) start_scene))"

definition calm :: "GameScene \<Rightarrow> bool" where
  "calm s \<longleftrightarrow>
     pool (itemPool s) = [0..<25] \<and> active (itemPool s) = []
     \<and> length (store (itemPool s)) = 25
     \<and> scoreMultiplier s = 1 \<and> \<not> overchargeActive s \<and> equippedUtility s = ''none''
     \<and> playerLevel s = 1 \<and> difficulty s = ''normal''"

definition play :: "rat \<Rightarrow> int \<Rightarrow> GameScene \<Rightarrow> GameScene" where
  "play r now s = catchItem now 0 24 (spawn_of r s)"




definition catch_window :: "int \<Rightarrow> (int \<times> int) list \<Rightarrow> (int \<times> int) list" where
  "catch_window t cs = filter (\<lambda>c. t - fst c < 10000) cs"

definition spec_performanceScore :: "(int \<times> int) list \<Rightarrow> int \<Rightarrow> rat" where
  "spec_performanceScore w cmb =
     max 0 (min 10 ((of_nat (length w) / 10 + of_int cmb * (1/10)
                      + of_int (sum_list (map snd w)) * (1/100)) / 3))"

definition difficulty_speed :: "string \<Rightarrow> rat" where
  "difficulty_speed diff = (if diff = ''easy'' then 150 else if diff = ''hard'' then 250 else 200)"

definition difficulty_spawn :: "string \<Rightarrow> rat" where
  "difficulty_spawn diff =
     (if diff = ''easy'' then 2000 else if diff = ''hard'' then 1000 else 1500)"

definition spec_itemSpeed :: "string \<Rightarrow> rat \<Rightarrow> rat" where
  "spec_itemSpeed diff ps = difficulty_speed diff * (1 + ps * (5/100))"

definition spec_spawnDelay :: "string \<Rightarrow> rat \<Rightarrow> rat" where
  "spec_spawnDelay diff ps = difficulty_spawn diff * max (7/10) (1 - ps * (3/100))"

definition item_ok :: "sprite \<Rightarrow> bool" where
  "item_ok it \<longleftrightarrow> itemType it = Some Bomb \<or> itemType it = Some Virus \<or> 0 \<le> sp_value it"

definition scene_inv :: "GameScene \<Rightarrow> bool" where
  "scene_inv s \<longleftrightarrow>
     lives s \<le> 5 \<and> 0 \<le> combo s \<and> 0 \<le> performanceScore s \<and> performanceScore s \<le> 10
     \<and> list_all (\<lambda>c. 0 \<le> snd c) (recentCatches s)
     \<and> list_all item_ok (store (itemPool s))"


definition chaos_scene :: GameScene where
  "chaos_scene =
     play (1/5) 4000 (play (3/8) 3000 (play (1/5) 2000 (play (3/8) 1000 start_scene)))"

fun double_spawns :: "nat \<Rightarrow> GameScene \<Rightarrow> GameScene" where
  "double_spawns 0 s = s"
| "double_spawns (Suc k) s = spawnItem 2 (\<lambda>_. 100) (\<lambda>_. 9/10) 0 (double_spawns k s)"

section \<open>Properties of the object pool\<close>

lemma length_on_obj [simp]: "length (on_obj r f st) = length st"
  by (simp add: on_obj_def)

lemma createManagedObject_simps [simp]:
  "fst (createManagedObject c p) = length (store p)"
  "store (snd (createManagedObject c p)) = store p @ [c]"
  "pool (snd (createManagedObject c p)) = pool p"
  "active (snd (createManagedObject c p)) = active p"
  "totalCreated (snd (createManagedObject c p)) = Suc (totalCreated p)"
  "maxCapacity (snd (createManagedObject c p)) = maxCapacity p"
  by (simp_all add: createManagedObject_def)

lemma get_pop:
  "pool p \<noteq> [] \<Longrightarrow>
   get c rf now p =
     (last (pool p),
      p\<lparr>pool := butlast (pool p),
        store := on_obj (last (pool p)) (setVisible True \<circ> setActive True) (store p),
        active := active p @ [last (pool p)]\<rparr>)"
  by (simp add: get_def)

lemma get_create:
  "pool p = [] \<Longrightarrow> hasCapacityAvailable p \<Longrightarrow>
   get c rf now p =
     (length (store p),
      p\<lparr>store := on_obj (length (store p)) (setVisible True \<circ> setActive True) (store p @ [c]),
        totalCreated := totalCreated p + 1,
        active := active p @ [length (store p)]\<rparr>)"
  by (simp add: get_def createManagedObject_def)

lemma get_recycle:
  "pool p = [] \<Longrightarrow> \<not> hasCapacityAvailable p \<Longrightarrow> active p = a # as \<Longrightarrow>
   get c rf now p =
     (a,
      (reportCapacityWarning ''Pool at capacity; recycling oldest object.'' now p)
       \<lparr>store := on_obj a (setVisible True \<circ> setActive True)
                 (on_obj a (rf \<circ> setVisible False \<circ> setActive False) (store p)),
        active := as @ [a]\<rparr>)"
  by (simp add: get_def recycleOldest_def reportCapacityWarning_def)

lemma get_overflow:
  "pool p = [] \<Longrightarrow> \<not> hasCapacityAvailable p \<Longrightarrow> active p = [] \<Longrightarrow>
   get c rf now p =
     (length (store p),
      (reportCapacityWarning ''Pool exceeded capacity; allocating additional object.'' now
        (reportCapacityWarning ''Pool at capacity; recycling oldest object.'' now p))
       \<lparr>store := on_obj (length (store p)) (setVisible True \<circ> setActive True) (store p @ [c]),
        totalCreated := totalCreated p + 1,
        active := [length (store p)]\<rparr>)"
  by (simp add: get_def recycleOldest_def reportCapacityWarning_def createManagedObject_def)

lemma get_cases:
  obtains (pop) "pool p \<noteq> []"
  | (create) "pool p = []" "hasCapacityAvailable p"
  | (recycle) a as where "pool p = []" "\<not> hasCapacityAvailable p" "active p = a # as"
  | (overflow) "pool p = []" "\<not> hasCapacityAvailable p" "active p = []"
  by (cases "active p") auto

lemma rcw_fields [simp]:
  "store (reportCapacityWarning m now p) = store p"
  "pool (reportCapacityWarning m now p) = pool p"
  "active (reportCapacityWarning m now p) = active p"
  "totalCreated (reportCapacityWarning m now p) = totalCreated p"
  "maxCapacity (reportCapacityWarning m now p) = maxCapacity p"
  "warningInterval (reportCapacityWarning m now p) = warningInterval p"
  by (simp_all add: reportCapacityWarning_def)

lemma pool_inv_get:
  assumes inv: "pool_inv p"
  shows "pool_inv (snd (get c rf now p))"
proof (cases p rule: get_cases)
  case pop
  then have "mset (pool p) = mset (butlast (pool p)) + {#last (pool p)#}"
    by (metis append_butlast_last_id mset.simps(1) mset.simps(2) mset_append)
  with inv pop show ?thesis
    by (simp add: get_pop pool_inv_def)
next
  case create
  with inv show ?thesis
    by (simp add: get_create pool_inv_def)
next
  case (recycle a as)
  with inv show ?thesis
    by (simp add: get_recycle pool_inv_def)
next
  case overflow
  with inv show ?thesis
    by (simp add: get_overflow pool_inv_def)
qed

lemma mset_remove1_append:
  "x \<in> set xs \<Longrightarrow> mset (remove1 x xs @ ys @ [x]) = mset (xs @ ys)"
  by (induction xs) auto

lemma pool_inv_release:
  assumes inv: "pool_inv p"
  shows "pool_inv (release rf obj p)"
proof (cases "obj \<in> set (active p)")
  case True
  have "mset (remove1 obj (active p) @ pool p @ [obj]) = mset (active p @ pool p)"
    using True by (rule mset_remove1_append)
  with inv True show ?thesis
    unfolding pool_inv_def release_def by simp
next
  case False
  with inv show ?thesis by (simp add: release_def)
qed

lemma pool_inv_prefill_step:
  "pool_inv p \<Longrightarrow>
   pool_inv ((snd (createManagedObject c p))
     \<lparr>store := on_obj (fst (createManagedObject c p)) f (store (snd (createManagedObject c p))),
      pool := pool (snd (createManagedObject c p)) @ [fst (createManagedObject c p)]\<rparr>)"
  by (simp add: pool_inv_def)

lemma pool_inv_prefill: "pool_inv p \<Longrightarrow> pool_inv (prefill n c p)"
proof (induction n arbitrary: p)
  case 0
  then show ?case by simp
next
  case (Suc n)
  show ?case
    unfolding prefill.simps Let_def case_prod_beta
    by (rule Suc.IH) (rule pool_inv_prefill_step [OF Suc.prems])
qed

lemma pool_inv_new: "pool_inv (new_ObjectPool c n mc)"
  unfolding new_ObjectPool_def Let_def
  by (rule pool_inv_prefill) (simp add: pool_inv_def)

lemma pool_inv_run: "pool_inv p \<Longrightarrow> pool_inv (pool_run c rf p calls)"
  unfolding pool_run_def
proof (induction calls arbitrary: p)
  case Nil
  then show ?case by simp
next
  case (Cons a calls)
  have "pool_inv (pool_step c rf p a)"
    using Cons.prems by (cases a) (simp_all add: pool_inv_get pool_inv_release)
  then show ?case using Cons.IH by simp
qed

lemma pool_inv_distinct: "pool_inv p \<Longrightarrow> distinct (active p @ pool p)"
  unfolding pool_inv_def by (metis distinct_upt mset_eq_imp_distinct_iff)

lemma pool_inv_set: "pool_inv p \<Longrightarrow> set (active p) \<union> set (pool p) = {..<totalCreated p}"
  unfolding pool_inv_def by (metis atLeast_upt mset_eq_setD set_append)

lemma pool_inv_length: "pool_inv p \<Longrightarrow> length (active p) + length (pool p) = totalCreated p"
  unfolding pool_inv_def by (metis length_append length_upt mset_eq_length minus_nat.diff_0)

lemma prefill_fields [simp]:
  "warnings (prefill k c p) = warnings p"
  "lastWarningTime (prefill k c p) = lastWarningTime p"
  "warningInterval (prefill k c p) = warningInterval p"
  "maxCapacity (prefill k c p) = maxCapacity p"
  "active (prefill k c p) = active p"
  "length (store (prefill k c p)) = length (store p) + k"
  by (induction k arbitrary: p; simp add: createManagedObject_def)+

lemma warn_inv_report: "warn_inv p \<Longrightarrow> warn_inv (reportCapacityWarning m now p)"
  by (auto simp: warn_inv_def reportCapacityWarning_def sorted_wrt_append list_all_iff)

lemma warn_inv_get:
  assumes inv: "warn_inv p"
  shows "warn_inv (snd (get c rf now p))"
proof (cases p rule: get_cases)
  case pop
  with inv show ?thesis by (simp add: get_pop warn_inv_def)
next
  case create
  with inv show ?thesis by (simp add: get_create warn_inv_def)
next
  case (recycle a as)
  have "warn_inv (reportCapacityWarning ''Pool at capacity; recycling oldest object.'' now p)"
    by (rule warn_inv_report [OF inv])
  with recycle show ?thesis by (simp add: get_recycle warn_inv_def)
next
  case overflow
  have "warn_inv (reportCapacityWarning
          ''Pool exceeded capacity; allocating additional object.'' now
          (reportCapacityWarning ''Pool at capacity; recycling oldest object.'' now p))"
    by (intro warn_inv_report inv)
  with overflow show ?thesis by (simp add: get_overflow warn_inv_def)
qed

lemma warn_inv_release: "warn_inv p \<Longrightarrow> warn_inv (release rf obj p)"
  by (simp add: release_def warn_inv_def)

lemma warn_inv_new: "warn_inv (new_ObjectPool c n mc)"
  by (simp add: new_ObjectPool_def Let_def warn_inv_def)

lemma warn_inv_run: "warn_inv p \<Longrightarrow> warn_inv (pool_run c rf p calls)"
  unfolding pool_run_def
proof (induction calls arbitrary: p)
  case Nil
  then show ?case by simp
next
  case (Cons a calls)
  have "warn_inv (pool_step c rf p a)"
    using Cons.prems by (cases a) (simp_all add: warn_inv_get warn_inv_release)
  then show ?case using Cons.IH by simp
qed

lemma cap_inv_get:
  assumes inv: "pool_inv p" and cap: "cap_inv p"
  shows "cap_inv (snd (get c rf now p))"
proof (cases p rule: get_cases)
  case pop
  with cap show ?thesis by (simp add: get_pop cap_inv_def)
next
  case create
  have "length (active p) + length (pool p) = length (store p)"
    using pool_inv_length [OF inv] inv by (simp add: pool_inv_def)
  with create cap show ?thesis
    by (simp add: get_create cap_inv_def hasCapacityAvailable_def)
next
  case (recycle a as)
  with cap show ?thesis by (simp add: get_recycle cap_inv_def)
next
  case overflow
  have "length (active p) + length (pool p) = length (store p)"
    using pool_inv_length [OF inv] inv by (simp add: pool_inv_def)
  with overflow show ?thesis by (simp add: get_overflow cap_inv_def)
qed

lemma cap_inv_release: "cap_inv p \<Longrightarrow> cap_inv (release rf obj p)"
  by (simp add: release_def cap_inv_def)

lemma cap_inv_new: "cap_inv (new_ObjectPool c n mc)"
  by (auto simp: new_ObjectPool_def Let_def cap_inv_def split: option.splits)

lemma cap_inv_run:
  "pool_inv p \<Longrightarrow> cap_inv p \<Longrightarrow> cap_inv (pool_run c rf p calls)"
  unfolding pool_run_def
proof (induction calls arbitrary: p)
  case Nil
  then show ?case by simp
next
  case (Cons a calls)
  have 1: "pool_inv (pool_step c rf p a)"
    using Cons.prems by (cases a) (simp_all add: pool_inv_get pool_inv_release)
  have 2: "cap_inv (pool_step c rf p a)"
    using Cons.prems by (cases a) (simp_all add: cap_inv_get cap_inv_release)
  show ?case using Cons.IH [OF 1 2] by simp
qed

text \<open>
  Claim C1. After any sequence of \<^verbatim>\<open>get\<close> and \<^verbatim>\<open>release\<close> calls on a newly constructed
  pool, the active list and the idle list together are no longer than
  \<open>max maxCapacity totalCreated\<close>, neither list repeats an object, no object is in both,
  and the objects in the two lists are exactly the \<open>totalCreated\<close> objects the pool has
  constructed.
\<close>

theorem pool_partition:
  "let p = pool_run c rf (new_ObjectPool c n mc) calls
   in int (length (active p)) + int (length (pool p)) \<le> max (maxCapacity p) (int (totalCreated p))
      \<and> distinct (active p) \<and> distinct (pool p)
      \<and> set (active p) \<inter> set (pool p) = {}
      \<and> set (active p) \<union> set (pool p) = {..<totalCreated p}
      \<and> totalCreated p = length (store p)"
proof -
  define p where "p = pool_run c rf (new_ObjectPool c n mc) calls"
  have inv: "pool_inv p"
    unfolding p_def by (rule pool_inv_run) (rule pool_inv_new)
  have d: "distinct (active p @ pool p)" by (rule pool_inv_distinct [OF inv])
  have l: "length (active p) + length (pool p) = totalCreated p"
    by (rule pool_inv_length [OF inv])
  have s: "set (active p) \<union> set (pool p) = {..<totalCreated p}"
    by (rule pool_inv_set [OF inv])
  have t: "totalCreated p = length (store p)" using inv by (simp add: pool_inv_def)
  from l have "int (length (active p)) + int (length (pool p)) = int (totalCreated p)" by simp
  with d s t show ?thesis unfolding p_def [symmetric] Let_def by simp
qed

lemma pool_inv_last_pool:
  assumes "pool_inv p" "pool p \<noteq> []"
  shows "last (pool p) < length (store p)"
proof -
  have "last (pool p) \<in> set (active p) \<union> set (pool p)"
    using assms(2) by simp
  then show ?thesis
    using pool_inv_set [OF assms(1)] assms(1) by (simp add: pool_inv_def)
qed

lemma pool_inv_hd_active:
  assumes "pool_inv p" "active p = a # as"
  shows "a < length (store p)"
proof -
  have "a \<in> set (active p) \<union> set (pool p)"
    using assms(2) by simp
  then show ?thesis
    using pool_inv_set [OF assms(1)] assms(1) by (simp add: pool_inv_def)
qed

lemma get_result_active:
  assumes inv: "pool_inv p"
  shows "fst (get c rf now p) < length (store (snd (get c rf now p)))
     \<and> last (active (snd (get c rf now p))) = fst (get c rf now p)
     \<and> sp_active (store (snd (get c rf now p)) ! fst (get c rf now p))
     \<and> sp_visible (store (snd (get c rf now p)) ! fst (get c rf now p))"
proof (cases p rule: get_cases)
  case pop
  with pool_inv_last_pool [OF inv pop] show ?thesis
    by (simp add: get_pop on_obj_def setActive_def setVisible_def)
next
  case create
  then show ?thesis
    by (simp add: get_create on_obj_def setActive_def setVisible_def)
next
  case (recycle a as)
  with pool_inv_hd_active [OF inv recycle(3)] show ?thesis
    by (simp add: get_recycle on_obj_def setActive_def setVisible_def)
next
  case overflow
  then show ?thesis
    by (simp add: get_overflow on_obj_def setActive_def setVisible_def)
qed

lemma get_after_release:
  "obj \<in> set (active p) \<Longrightarrow> fst (get c rf now (release rf obj p)) = obj"
  by (simp add: release_def get_pop)

text \<open>
  Claim C3. \<^verbatim>\<open>get()\<close> returns the last idle object when there is one, so an object
  that was just released is the next one handed out; with no idle object and room left it
  constructs a new one; at capacity it takes the head of the active list, resets it and
  appends it again, so the active list keeps its length; when that list is empty too it
  constructs an object anyway. The object returned is stored, active, visible and last in
  the active list. In every run from a new pool the emitted warnings are at least 2000 ms
  apart, and the active list is never longer than the capacity (or than one, for a
  capacity below one).
\<close>

theorem get_policy:
  "(pool p \<noteq> [] \<longrightarrow> fst (get c rf now p) = last (pool p))
   \<and> (obj \<in> set (active p) \<longrightarrow> fst (get c rf now (release rf obj p)) = obj)
   \<and> (pool p = [] \<and> hasCapacityAvailable p \<longrightarrow>
        fst (get c rf now p) = length (store p)
        \<and> store (snd (get c rf now p)) = store p @ [setVisible True (setActive True c)]
        \<and> totalCreated (snd (get c rf now p)) = totalCreated p + 1)
   \<and> (pool_inv p \<and> pool p = [] \<and> \<not> hasCapacityAvailable p \<and> active p \<noteq> [] \<longrightarrow>
        fst (get c rf now p) = hd (active p)
        \<and> active (snd (get c rf now p)) = tl (active p) @ [hd (active p)]
        \<and> length (active (snd (get c rf now p))) = length (active p)
        \<and> totalCreated (snd (get c rf now p)) = totalCreated p
        \<and> store (snd (get c rf now p)) =
            (store p)[hd (active p) :=
               setVisible True (setActive True (rf (setVisible False (setActive False
                 (store p ! hd (active p))))))]
        \<and> warnings (snd (get c rf now p)) =
            (if now - lastWarningTime p < warningInterval p then warnings p
             else warnings p @ [(now, ''Pool at capacity; recycling oldest object.'')]))
   \<and> (pool p = [] \<and> \<not> hasCapacityAvailable p \<and> active p = [] \<longrightarrow>
        fst (get c rf now p) = length (store p)
        \<and> store (snd (get c rf now p)) = store p @ [setVisible True (setActive True c)]
        \<and> totalCreated (snd (get c rf now p)) = totalCreated p + 1)
   \<and> (pool_inv p \<longrightarrow>
        fst (get c rf now p) < length (store (snd (get c rf now p)))
        \<and> last (active (snd (get c rf now p))) = fst (get c rf now p)
        \<and> sp_active (store (snd (get c rf now p)) ! fst (get c rf now p))
        \<and> sp_visible (store (snd (get c rf now p)) ! fst (get c rf now p)))
   \<and> sorted_wrt (\<lambda>a b. fst a + 2000 \<le> fst b)
        (warnings (pool_run c rf (new_ObjectPool c n mc) calls))
   \<and> int (length (active (pool_run c rf (new_ObjectPool c n mc) calls)))
        \<le> max 1 (maxCapacity (pool_run c rf (new_ObjectPool c n mc) calls))"
proof -
  have 1: "pool p \<noteq> [] \<longrightarrow> fst (get c rf now p) = last (pool p)"
    by (simp add: get_pop)
  have 2: "obj \<in> set (active p) \<longrightarrow> fst (get c rf now (release rf obj p)) = obj"
    by (simp add: get_after_release)
  have 3: "pool p = [] \<and> hasCapacityAvailable p \<longrightarrow>
        fst (get c rf now p) = length (store p)
        \<and> store (snd (get c rf now p)) = store p @ [setVisible True (setActive True c)]
        \<and> totalCreated (snd (get c rf now p)) = totalCreated p + 1"
    by (simp add: get_create on_obj_def)
  have 4: "pool_inv p \<and> pool p = [] \<and> \<not> hasCapacityAvailable p \<and> active p \<noteq> [] \<longrightarrow>
        fst (get c rf now p) = hd (active p)
        \<and> active (snd (get c rf now p)) = tl (active p) @ [hd (active p)]
        \<and> length (active (snd (get c rf now p))) = length (active p)
        \<and> totalCreated (snd (get c rf now p)) = totalCreated p
        \<and> store (snd (get c rf now p)) =
            (store p)[hd (active p) :=
               setVisible True (setActive True (rf (setVisible False (setActive False
                 (store p ! hd (active p))))))]
        \<and> warnings (snd (get c rf now p)) =
            (if now - lastWarningTime p < warningInterval p then warnings p
             else warnings p @ [(now, ''Pool at capacity; recycling oldest object.'')])"
  proof (intro impI, elim conjE)
    assume inv: "pool_inv p" and a: "pool p = []" "\<not> hasCapacityAvailable p" "active p \<noteq> []"
    have e: "active p = hd (active p) # tl (active p)" using a(3) by simp
    have lt: "hd (active p) < length (store p)" by (rule pool_inv_hd_active [OF inv e])
    have l: "length (active p) = Suc (length (tl (active p)))" using a(3) by simp
    show "fst (get c rf now p) = hd (active p)
        \<and> active (snd (get c rf now p)) = tl (active p) @ [hd (active p)]
        \<and> length (active (snd (get c rf now p))) = length (active p)
        \<and> totalCreated (snd (get c rf now p)) = totalCreated p
        \<and> store (snd (get c rf now p)) =
            (store p)[hd (active p) :=
               setVisible True (setActive True (rf (setVisible False (setActive False
                 (store p ! hd (active p))))))]
        \<and> warnings (snd (get c rf now p)) =
            (if now - lastWarningTime p < warningInterval p then warnings p
             else warnings p @ [(now, ''Pool at capacity; recycling oldest object.'')])"
      using lt l by (simp add: get_recycle [OF a(1,2) e] on_obj_def reportCapacityWarning_def)
  qed
  have 5: "pool p = [] \<and> \<not> hasCapacityAvailable p \<and> active p = [] \<longrightarrow>
        fst (get c rf now p) = length (store p)
        \<and> store (snd (get c rf now p)) = store p @ [setVisible True (setActive True c)]
        \<and> totalCreated (snd (get c rf now p)) = totalCreated p + 1"
    by (simp add: get_overflow on_obj_def)
  have 6: "pool_inv p \<longrightarrow>
        fst (get c rf now p) < length (store (snd (get c rf now p)))
        \<and> last (active (snd (get c rf now p))) = fst (get c rf now p)
        \<and> sp_active (store (snd (get c rf now p)) ! fst (get c rf now p))
        \<and> sp_visible (store (snd (get c rf now p)) ! fst (get c rf now p))"
    using get_result_active by blast
  define q where "q = pool_run c rf (new_ObjectPool c n mc) calls"
  have "warn_inv q"
    unfolding q_def by (rule warn_inv_run) (rule warn_inv_new)
  then have 7: "sorted_wrt (\<lambda>a b. fst a + 2000 \<le> fst b) (warnings q)"
    by (simp add: warn_inv_def)
  have inv: "pool_inv q"
    unfolding q_def by (rule pool_inv_run) (rule pool_inv_new)
  have "cap_inv q"
    unfolding q_def by (rule cap_inv_run) (rule pool_inv_new, rule cap_inv_new)
  moreover have "length (active q) \<le> length (store q)"
    using pool_inv_length [OF inv] inv by (simp add: pool_inv_def)
  ultimately have 8: "int (length (active q)) \<le> max 1 (maxCapacity q)"
    by (simp add: cap_inv_def)
  from 1 2 3 4 5 6 7 8 show ?thesis unfolding q_def by blast
qed

lemmas pool_eval =
  new_ObjectPool_def get_def release_def createManagedObject_def recycleOldest_def
  reportCapacityWarning_def hasCapacityAvailable_def on_obj_def pool_run_def
  Let_def eval_nat_numeral idle_pool_def busy_pool_def fresh_pool_def full_pool_def
  zero_pool_def

text \<open>
  The cases of \<open>get_policy\<close> on the example pools, and a run of five calls on a pool of
  capacity one: of the four recycling calls only those at 6000 and 9500 emit a warning.
\<close>

theorem get_policy_witness:
  "(pool idle_pool \<noteq> []
      \<and> fst (get item_createFunc item_resetFunc 5000 idle_pool) = last (pool idle_pool)
      \<and> pool idle_pool = [0, 1])
   \<and> (1 \<in> set (active busy_pool)
      \<and> fst (get item_createFunc item_resetFunc 6000 (release item_resetFunc 1 busy_pool)) = 1)
   \<and> (pool fresh_pool = [] \<and> hasCapacityAvailable fresh_pool
      \<and> fst (get item_createFunc item_resetFunc 5000 fresh_pool) = length (store fresh_pool)
      \<and> totalCreated (snd (get item_createFunc item_resetFunc 5000 fresh_pool))
          = totalCreated fresh_pool + 1)
   \<and> (pool_inv full_pool \<and> pool full_pool = [] \<and> \<not> hasCapacityAvailable full_pool
      \<and> active full_pool \<noteq> []
      \<and> fst (get item_createFunc item_resetFunc 6000 full_pool) = hd (active full_pool)
      \<and> length (active (snd (get item_createFunc item_resetFunc 6000 full_pool)))
          = length (active full_pool)
      \<and> warnings (snd (get item_createFunc item_resetFunc 6000 full_pool))
          = [(6000, ''Pool at capacity; recycling oldest object.'')])
   \<and> (pool zero_pool = [] \<and> \<not> hasCapacityAvailable zero_pool \<and> active zero_pool = []
      \<and> fst (get item_createFunc item_resetFunc 5000 zero_pool) = length (store zero_pool)
      \<and> totalCreated (snd (get item_createFunc item_resetFunc 5000 zero_pool))
          = totalCreated zero_pool + 1)
   \<and> (sp_active (store (snd (get item_createFunc item_resetFunc 6000 full_pool))
          ! fst (get item_createFunc item_resetFunc 6000 full_pool)))
   \<and> sorted_wrt (\<lambda>a b. fst a + 2000 \<le> fst b)
        (warnings (pool_run item_createFunc item_resetFunc
           (new_ObjectPool item_createFunc 0 (Some 1))
           [Get 5000, Get 6000, Get 6999, Get 7000, Get 9500]))
   \<and> warnings (pool_run item_createFunc item_resetFunc
           (new_ObjectPool item_createFunc 0 (Some 1))
           [Get 5000, Get 6000, Get 6999, Get 7000, Get 9500])
        = [(6000, ''Pool at capacity; recycling oldest object.''),
           (9500, ''Pool at capacity; recycling oldest object.'')]"
proof -
  note T1 = get_policy [where p = idle_pool and c = item_createFunc and rf = item_resetFunc
      and now = 5000 and obj = 0 and n = 0 and mc = "Some 1"
      and calls = "[Get 5000, Get 6000, Get 6999, Get 7000, Get 9500]"]
  note T2 = get_policy [where p = busy_pool and c = item_createFunc and rf = item_resetFunc
      and now = 6000 and obj = 1 and n = 0 and mc = "Some 1" and calls = "[]"]
  note T3 = get_policy [where p = fresh_pool and c = item_createFunc and rf = item_resetFunc
      and now = 5000 and obj = 0 and n = 0 and mc = "Some 1" and calls = "[]"]
  note T4 = get_policy [where p = full_pool and c = item_createFunc and rf = item_resetFunc
      and now = 6000 and obj = 0 and n = 0 and mc = "Some 1" and calls = "[]"]
  note T5 = get_policy [where p = zero_pool and c = item_createFunc and rf = item_resetFunc
      and now = 5000 and obj = 0 and n = 0 and mc = "Some 1" and calls = "[]"]
  have h1: "pool idle_pool \<noteq> []" by (simp add: pool_eval)
  have c1: "fst (get item_createFunc item_resetFunc 5000 idle_pool) = last (pool idle_pool)"
    using T1 h1 by blast
  have e1: "pool idle_pool = [0, 1]" by (simp add: pool_eval)
  have h2: "1 \<in> set (active busy_pool)" by (simp add: pool_eval)
  have c2: "fst (get item_createFunc item_resetFunc 6000 (release item_resetFunc 1 busy_pool)) = 1"
    using T2 h2 by blast
  have h3: "pool fresh_pool = [] \<and> hasCapacityAvailable fresh_pool" by (simp add: pool_eval)
  have c3: "fst (get item_createFunc item_resetFunc 5000 fresh_pool) = length (store fresh_pool)
      \<and> totalCreated (snd (get item_createFunc item_resetFunc 5000 fresh_pool))
          = totalCreated fresh_pool + 1"
    using T3 h3 by blast
  have i4: "pool_inv full_pool"
    unfolding full_pool_def fresh_pool_def by (intro pool_inv_get pool_inv_new)
  have h4: "pool full_pool = [] \<and> \<not> hasCapacityAvailable full_pool \<and> active full_pool \<noteq> []"
    by (simp add: pool_eval)
  have w4: "\<not> 6000 - lastWarningTime full_pool < warningInterval full_pool"
     "warnings full_pool = []"
    by (simp_all add: pool_eval)
  have c4: "fst (get item_createFunc item_resetFunc 6000 full_pool) = hd (active full_pool)
      \<and> length (active (snd (get item_createFunc item_resetFunc 6000 full_pool)))
          = length (active full_pool)
      \<and> warnings (snd (get item_createFunc item_resetFunc 6000 full_pool))
          = (if 6000 - lastWarningTime full_pool < warningInterval full_pool
             then warnings full_pool
             else warnings full_pool @ [(6000, ''Pool at capacity; recycling oldest object.'')])"
    using T4 i4 h4 by blast
  have c4': "warnings (snd (get item_createFunc item_resetFunc 6000 full_pool))
          = [(6000, ''Pool at capacity; recycling oldest object.'')]"
    using c4 w4 by simp
  have h5: "pool zero_pool = [] \<and> \<not> hasCapacityAvailable zero_pool \<and> active zero_pool = []"
    by (simp add: pool_eval)
  have c5: "fst (get item_createFunc item_resetFunc 5000 zero_pool) = length (store zero_pool)
      \<and> totalCreated (snd (get item_createFunc item_resetFunc 5000 zero_pool))
          = totalCreated zero_pool + 1"
    using T5 h5 by blast
  have c6: "sp_active (store (snd (get item_createFunc item_resetFunc 6000 full_pool))
          ! fst (get item_createFunc item_resetFunc 6000 full_pool))"
    using T4 i4 by blast
  have c7: "sorted_wrt (\<lambda>a b. fst a + 2000 \<le> fst b)
        (warnings (pool_run item_createFunc item_resetFunc
           (new_ObjectPool item_createFunc 0 (Some 1))
           [Get 5000, Get 6000, Get 6999, Get 7000, Get 9500]))"
    using T1 by blast
  have e7: "warnings (pool_run item_createFunc item_resetFunc
           (new_ObjectPool item_createFunc 0 (Some 1))
           [Get 5000, Get 6000, Get 6999, Get 7000, Get 9500])
        = [(6000, ''Pool at capacity; recycling oldest object.''),
           (9500, ''Pool at capacity; recycling oldest object.'')]"
    by (simp add: pool_eval)
  from h1 c1 e1 h2 c2 h3 c3 i4 h4 c4 c4' h5 c5 c6 c7 e7 show ?thesis by blast
qed

section \<open>Properties of the performance controller\<close>

lemma foldl_plus_sum_list: "foldl (+) (a::nat) xs = a + sum_list xs"
  by (induction xs arbitrary: a) simp_all

lemma adjustQuality_level:
  "fpsHistory pm \<noteq> [] \<Longrightarrow>
   qualityLevel (adjustQuality pm) =
     (if arithmetic_mean (fpsHistory pm) < 40 \<and> 0 < qualityLevel pm then qualityLevel pm - 1
      else if arithmetic_mean (fpsHistory pm) > 58 \<and> qualityLevel pm < 2 then qualityLevel pm + 1
      else qualityLevel pm)"
  by (simp add: adjustQuality_def arithmetic_mean_def foldl_plus_sum_list Let_def)

lemma adjustQuality_fields [simp]:
  "fpsHistory (adjustQuality pm) = fpsHistory pm"
  "autoOptimize (adjustQuality pm) = autoOptimize pm"
  "maxHistoryLength (adjustQuality pm) = maxHistoryLength pm"
  "lastTime (adjustQuality pm) = lastTime pm"
  by (simp_all add: adjustQuality_def Let_def)

lemma adjustQuality_range:
  "0 \<le> qualityLevel pm \<and> qualityLevel pm \<le> 2 \<Longrightarrow>
   0 \<le> qualityLevel (adjustQuality pm) \<and> qualityLevel (adjustQuality pm) \<le> 2"
  by (simp add: adjustQuality_def Let_def)

lemma update_fields [simp]:
  "autoOptimize (update t pm) = autoOptimize pm"
  "maxHistoryLength (update t pm) = maxHistoryLength pm"
  by (simp_all add: update_def Let_def)

lemma update_range:
  "0 \<le> qualityLevel pm \<and> qualityLevel pm \<le> 2 \<Longrightarrow>
   0 \<le> qualityLevel (update t pm) \<and> qualityLevel (update t pm) \<le> 2"
  unfolding update_def Let_def
  by (simp add: adjustQuality_range)

lemma update_skip:
  "\<not> 1000 \<le> t - lastTime pm \<Longrightarrow> qualityLevel (update t pm) = qualityLevel pm"
  by (simp add: update_def Let_def)

lemma update_short:
  "length (fpsHistory (update t pm)) < 10 \<Longrightarrow> qualityLevel (update t pm) = qualityLevel pm"
  by (auto simp: update_def Let_def split: if_splits)

lemma update_adjust:
  assumes "1000 \<le> t - lastTime pm" "autoOptimize pm" "10 \<le> length (fpsHistory (update t pm))"
  shows "qualityLevel (update t pm) =
     (if arithmetic_mean (fpsHistory (update t pm)) < 40 \<and> 0 < qualityLevel pm
      then qualityLevel pm - 1
      else if arithmetic_mean (fpsHistory (update t pm)) > 58 \<and> qualityLevel pm < 2
      then qualityLevel pm + 1
      else qualityLevel pm)"
proof -
  define pm3 where "pm3 =
    (let pm1 = pm\<lparr>frameCount := frameCount pm + 1\<rparr>;
         pm2 = pm1\<lparr>fps := frameCount pm1, frameCount := 0, lastTime := t,
                   fpsHistory := fpsHistory pm1 @ [frameCount pm1]\<rparr>
     in if length (fpsHistory pm2) > maxHistoryLength pm2
        then pm2\<lparr>fpsHistory := tl (fpsHistory pm2)\<rparr> else pm2)"
  have q: "qualityLevel pm3 = qualityLevel pm" and a: "autoOptimize pm3 = autoOptimize pm"
    by (simp_all add: pm3_def Let_def)
  have u: "update t pm =
      (if autoOptimize pm3 \<and> 10 \<le> length (fpsHistory pm3) then adjustQuality pm3 else pm3)"
    using assms(1) by (simp add: update_def pm3_def Let_def)
  have h: "fpsHistory (update t pm) = fpsHistory pm3"
    by (simp add: u)
  with assms(3) have l: "10 \<le> length (fpsHistory pm3)" by simp
  then have ne: "fpsHistory pm3 \<noteq> []" by auto
  have "update t pm = adjustQuality pm3"
    using u l a assms(2) by simp
  then show ?thesis
    using adjustQuality_level [OF ne] h q by simp
qed

lemma pm_run_snoc: "pm_run (ts @ [t]) = update t (pm_run ts)"
  by (simp add: pm_run_def)

lemma pm_run_inv:
  "(0 \<le> qualityLevel (pm_run ts) \<and> qualityLevel (pm_run ts) \<le> 2) \<and> autoOptimize (pm_run ts)
   \<and> maxHistoryLength (pm_run ts) = 60"
proof (induction ts rule: rev_induct)
  case Nil
  show ?case by (simp add: pm_run_def new_PerformanceManager_def)
next
  case (snoc t ts)
  then show ?case
    using update_range [of "pm_run ts" t] by (simp add: pm_run_snoc)
qed

text \<open>
  Claim C4. In every state the controller reaches from its constructor by calls of
  \<^verbatim>\<open>update\<close>, the quality level is 0, 1 or 2. A call changes the level only if the
  history then holds at least ten samples; when the call takes a sample (a second has
  passed) and the history holds at least ten, the level goes down by one if the mean of
  the history is below 40 and the level above 0, else up by one if the mean is above 58
  and the level below 2, and else stays; a call that takes no sample leaves the level alone.
\<close>

theorem quality_transitions:
  "qualityLevel (pm_run ts) \<in> {0, 1, 2}
   \<and> qualityLevel (update t (pm_run ts)) \<in> {0, 1, 2}
   \<and> (qualityLevel (update t (pm_run ts)) \<noteq> qualityLevel (pm_run ts) \<longrightarrow>
        10 \<le> length (fpsHistory (update t (pm_run ts))))
   \<and> (1000 \<le> t - lastTime (pm_run ts) \<and> 10 \<le> length (fpsHistory (update t (pm_run ts))) \<longrightarrow>
        qualityLevel (update t (pm_run ts)) =
          (if arithmetic_mean (fpsHistory (update t (pm_run ts))) < 40
               \<and> 0 < qualityLevel (pm_run ts)
           then qualityLevel (pm_run ts) - 1
           else if arithmetic_mean (fpsHistory (update t (pm_run ts))) > 58
               \<and> qualityLevel (pm_run ts) < 2
           then qualityLevel (pm_run ts) + 1
           else qualityLevel (pm_run ts)))
   \<and> (\<not> 1000 \<le> t - lastTime (pm_run ts) \<longrightarrow>
        qualityLevel (update t (pm_run ts)) = qualityLevel (pm_run ts))"
proof -
  have r: "0 \<le> qualityLevel (pm_run ts) \<and> qualityLevel (pm_run ts) \<le> 2"
    and a: "autoOptimize (pm_run ts)"
    using pm_run_inv [of ts] by simp_all
  have i: "qualityLevel (pm_run ts) \<in> {0, 1, 2}"
    using r by auto
  have 2: "qualityLevel (update t (pm_run ts)) \<in> {0, 1, 2}"
    using update_range [OF r, of t] by auto
  have 3: "qualityLevel (update t (pm_run ts)) \<noteq> qualityLevel (pm_run ts) \<longrightarrow>
        10 \<le> length (fpsHistory (update t (pm_run ts)))"
    using update_short [of t "pm_run ts"] by force
  have 4: "1000 \<le> t - lastTime (pm_run ts) \<and> 10 \<le> length (fpsHistory (update t (pm_run ts))) \<longrightarrow>
        qualityLevel (update t (pm_run ts)) =
          (if arithmetic_mean (fpsHistory (update t (pm_run ts))) < 40
               \<and> 0 < qualityLevel (pm_run ts)
           then qualityLevel (pm_run ts) - 1
           else if arithmetic_mean (fpsHistory (update t (pm_run ts))) > 58
               \<and> qualityLevel (pm_run ts) < 2
           then qualityLevel (pm_run ts) + 1
           else qualityLevel (pm_run ts))"
    using update_adjust [OF _ a] by blast
  have 5: "\<not> 1000 \<le> t - lastTime (pm_run ts) \<longrightarrow>
        qualityLevel (update t (pm_run ts)) = qualityLevel (pm_run ts)"
    using update_skip by blast
  from i 2 3 4 5 show ?thesis by blast
qed

lemmas pm_eval = pm_run_def update_def adjustQuality_def new_PerformanceManager_def Let_def
  arithmetic_mean_def

text \<open>
  Ten calls one second apart, one frame each: the tenth sample brings the mean of 1 into
  force and the level drops from 1 to 0; a call half a second after the ninth changes
  nothing.
\<close>

theorem quality_transitions_witness:
  "qualityLevel (update 10000 (pm_run [1000, 2000, 3000, 4000, 5000, 6000, 7000, 8000, 9000]))
     \<noteq> qualityLevel (pm_run [1000, 2000, 3000, 4000, 5000, 6000, 7000, 8000, 9000])
   \<and> 10 \<le> length (fpsHistory
        (update 10000 (pm_run [1000, 2000, 3000, 4000, 5000, 6000, 7000, 8000, 9000])))
   \<and> 1000 \<le> 10000 - lastTime (pm_run [1000, 2000, 3000, 4000, 5000, 6000, 7000, 8000, 9000])
   \<and> qualityLevel (update 10000 (pm_run [1000, 2000, 3000, 4000, 5000, 6000, 7000, 8000, 9000]))
       = (if arithmetic_mean (fpsHistory
                (update 10000 (pm_run [1000, 2000, 3000, 4000, 5000, 6000, 7000, 8000, 9000])))
                < 40
              \<and> 0 < qualityLevel (pm_run [1000, 2000, 3000, 4000, 5000, 6000, 7000, 8000, 9000])
          then qualityLevel (pm_run [1000, 2000, 3000, 4000, 5000, 6000, 7000, 8000, 9000]) - 1
          else if arithmetic_mean (fpsHistory
                (update 10000 (pm_run [1000, 2000, 3000, 4000, 5000, 6000, 7000, 8000, 9000])))
                > 58
              \<and> qualityLevel (pm_run [1000, 2000, 3000, 4000, 5000, 6000, 7000, 8000, 9000]) < 2
          then qualityLevel (pm_run [1000, 2000, 3000, 4000, 5000, 6000, 7000, 8000, 9000]) + 1
          else qualityLevel (pm_run [1000, 2000, 3000, 4000, 5000, 6000, 7000, 8000, 9000]))
   \<and> qualityLevel (pm_run [1000, 2000, 3000, 4000, 5000, 6000, 7000, 8000, 9000]) = 1
   \<and> qualityLevel (update 10000 (pm_run [1000, 2000, 3000, 4000, 5000, 6000, 7000, 8000, 9000]))
       = 0
   \<and> \<not> 1000 \<le> 9500 - lastTime (pm_run [1000, 2000, 3000, 4000, 5000, 6000, 7000, 8000, 9000])
   \<and> qualityLevel (update 9500 (pm_run [1000, 2000, 3000, 4000, 5000, 6000, 7000, 8000, 9000]))
       = qualityLevel (pm_run [1000, 2000, 3000, 4000, 5000, 6000, 7000, 8000, 9000])"
proof -
  define ts :: "rat list" where "ts = [1000, 2000, 3000, 4000, 5000, 6000, 7000, 8000, 9000]"
  note T = quality_transitions [of ts 10000]
  note S = quality_transitions [of ts 9500]
  have q: "qualityLevel (pm_run ts) = 1"
    by (simp add: ts_def pm_eval)
  have q': "qualityLevel (update 10000 (pm_run ts)) = 0"
    by (simp add: ts_def pm_eval)
  have h1: "qualityLevel (update 10000 (pm_run ts)) \<noteq> qualityLevel (pm_run ts)"
    by (simp add: q q')
  have c1: "10 \<le> length (fpsHistory (update 10000 (pm_run ts)))"
    using T h1 by blast
  have h2: "1000 \<le> 10000 - lastTime (pm_run ts)"
    by (simp add: ts_def pm_eval)
  have c2: "qualityLevel (update 10000 (pm_run ts)) =
          (if arithmetic_mean (fpsHistory (update 10000 (pm_run ts))) < 40
               \<and> 0 < qualityLevel (pm_run ts)
           then qualityLevel (pm_run ts) - 1
           else if arithmetic_mean (fpsHistory (update 10000 (pm_run ts))) > 58
               \<and> qualityLevel (pm_run ts) < 2
           then qualityLevel (pm_run ts) + 1
           else qualityLevel (pm_run ts))"
    using T h2 c1 by blast
  have h3: "\<not> 1000 \<le> 9500 - lastTime (pm_run ts)"
    by (simp add: ts_def pm_eval)
  have c3: "qualityLevel (update 9500 (pm_run ts)) = qualityLevel (pm_run ts)"
    using S h3 by blast
  from h1 c1 h2 c2 q q' h3 c3 show ?thesis
    unfolding ts_def by blast
qed

section \<open>Properties of the scene handlers\<close>

text \<open>What each step of a handler leaves unchanged, and what it sets.\<close>

lemma release_item_frame [simp]:
  "score (release_item i s) = score s"
  "level (release_item i s) = level s"
  "lives (release_item i s) = lives s"
  "combo (release_item i s) = combo s"
  "itemSpeed (release_item i s) = itemSpeed s"
  "spawnRate (release_item i s) = spawnRate s"
  "spawnTimerDelay (release_item i s) = spawnTimerDelay s"
  "performanceScore (release_item i s) = performanceScore s"
  "isChaosMode (release_item i s) = isChaosMode s"
  "activePowerups (release_item i s) = activePowerups s"
  "shieldUses (release_item i s) = shieldUses s"
  "recentCatches (release_item i s) = recentCatches s"
  "terminal (release_item i s) = terminal s"
  "scoreMultiplier (release_item i s) = scoreMultiplier s"
  "overchargeActive (release_item i s) = overchargeActive s"
  "equippedUtility (release_item i s) = equippedUtility s"
  "playerLevel (release_item i s) = playerLevel s"
  "difficulty (release_item i s) = difficulty s"
  "performanceManager (release_item i s) = performanceManager s"
  by (simp_all add: release_item_def)

lemma updatePerformanceScore_frame [simp]:
  "score (updatePerformanceScore s) = score s"
  "level (updatePerformanceScore s) = level s"
  "lives (updatePerformanceScore s) = lives s"
  "combo (updatePerformanceScore s) = combo s"
  "isChaosMode (updatePerformanceScore s) = isChaosMode s"
  "activePowerups (updatePerformanceScore s) = activePowerups s"
  "shieldUses (updatePerformanceScore s) = shieldUses s"
  "recentCatches (updatePerformanceScore s) = recentCatches s"
  "terminal (updatePerformanceScore s) = terminal s"
  "itemPool (updatePerformanceScore s) = itemPool s"
  "scoreMultiplier (updatePerformanceScore s) = scoreMultiplier s"
  "overchargeActive (updatePerformanceScore s) = overchargeActive s"
  "equippedUtility (updatePerformanceScore s) = equippedUtility s"
  "playerLevel (updatePerformanceScore s) = playerLevel s"
  "difficulty (updatePerformanceScore s) = difficulty s"
  "performanceManager (updatePerformanceScore s) = performanceManager s"
  by (simp_all add: updatePerformanceScore_def Let_def)

lemma gameOver_frame [simp]:
  "score (gameOver s) = score s"
  "level (gameOver s) = level s"
  "lives (gameOver s) = lives s"
  "combo (gameOver s) = combo s"
  "itemSpeed (gameOver s) = itemSpeed s"
  "spawnRate (gameOver s) = spawnRate s"
  "spawnTimerDelay (gameOver s) = spawnTimerDelay s"
  "performanceScore (gameOver s) = performanceScore s"
  "isChaosMode (gameOver s) = isChaosMode s"
  "activePowerups (gameOver s) = activePowerups s"
  "shieldUses (gameOver s) = shieldUses s"
  "recentCatches (gameOver s) = recentCatches s"
  "scoreMultiplier (gameOver s) = scoreMultiplier s"
  "overchargeActive (gameOver s) = overchargeActive s"
  "equippedUtility (gameOver s) = equippedUtility s"
  "playerLevel (gameOver s) = playerLevel s"
  "difficulty (gameOver s) = difficulty s"
  "performanceManager (gameOver s) = performanceManager s"
  by (simp_all add: gameOver_def)

lemma levelUp_frame [simp]:
  "score (levelUp s) = score s"
  "lives (levelUp s) = lives s"
  "combo (levelUp s) = combo s"
  "performanceScore (levelUp s) = performanceScore s"
  "activePowerups (levelUp s) = activePowerups s"
  "shieldUses (levelUp s) = shieldUses s"
  "recentCatches (levelUp s) = recentCatches s"
  "terminal (levelUp s) = terminal s"
  "itemPool (levelUp s) = itemPool s"
  "scoreMultiplier (levelUp s) = scoreMultiplier s"
  "overchargeActive (levelUp s) = overchargeActive s"
  "equippedUtility (levelUp s) = equippedUtility s"
  "playerLevel (levelUp s) = playerLevel s"
  "difficulty (levelUp s) = difficulty s"
  "performanceManager (levelUp s) = performanceManager s"
  by (simp_all add: levelUp_def activateChaosMode_def Let_def)

lemma check_levelUp_frame [simp]:
  "score (check_levelUp s) = score s"
  "lives (check_levelUp s) = lives s"
  "combo (check_levelUp s) = combo s"
  "performanceScore (check_levelUp s) = performanceScore s"
  "activePowerups (check_levelUp s) = activePowerups s"
  "shieldUses (check_levelUp s) = shieldUses s"
  "recentCatches (check_levelUp s) = recentCatches s"
  "terminal (check_levelUp s) = terminal s"
  "itemPool (check_levelUp s) = itemPool s"
  "scoreMultiplier (check_levelUp s) = scoreMultiplier s"
  "overchargeActive (check_levelUp s) = overchargeActive s"
  "equippedUtility (check_levelUp s) = equippedUtility s"
  "playerLevel (check_levelUp s) = playerLevel s"
  "difficulty (check_levelUp s) = difficulty s"
  "performanceManager (check_levelUp s) = performanceManager s"
  by (simp_all add: check_levelUp_def)

lemma gold_catch_frame [simp]:
  "score (gold_catch it s) = score s"
  "level (gold_catch it s) = level s"
  "lives (gold_catch it s) = lives s"
  "combo (gold_catch it s) = combo s"
  "itemSpeed (gold_catch it s) = itemSpeed s"
  "spawnRate (gold_catch it s) = spawnRate s"
  "spawnTimerDelay (gold_catch it s) = spawnTimerDelay s"
  "performanceScore (gold_catch it s) = performanceScore s"
  "isChaosMode (gold_catch it s) = isChaosMode s"
  "activePowerups (gold_catch it s) = activePowerups s"
  "shieldUses (gold_catch it s) = shieldUses s"
  "recentCatches (gold_catch it s) = recentCatches s"
  "terminal (gold_catch it s) = terminal s"
  "itemPool (gold_catch it s) = itemPool s"
  "scoreMultiplier (gold_catch it s) = scoreMultiplier s"
  "overchargeActive (gold_catch it s) = overchargeActive s"
  "equippedUtility (gold_catch it s) = equippedUtility s"
  "playerLevel (gold_catch it s) = playerLevel s"
  "difficulty (gold_catch it s) = difficulty s"
  "performanceManager (gold_catch it s) = performanceManager s"
  by (simp_all add: gold_catch_def)

lemma charge_catch_frame [simp]:
  "score (charge_catch it s) = score s"
  "level (charge_catch it s) = level s"
  "lives (charge_catch it s) = lives s"
  "combo (charge_catch it s) = combo s"
  "itemSpeed (charge_catch it s) = itemSpeed s"
  "spawnRate (charge_catch it s) = spawnRate s"
  "spawnTimerDelay (charge_catch it s) = spawnTimerDelay s"
  "performanceScore (charge_catch it s) = performanceScore s"
  "isChaosMode (charge_catch it s) = isChaosMode s"
  "activePowerups (charge_catch it s) = activePowerups s"
  "shieldUses (charge_catch it s) = shieldUses s"
  "recentCatches (charge_catch it s) = recentCatches s"
  "terminal (charge_catch it s) = terminal s"
  "itemPool (charge_catch it s) = itemPool s"
  "scoreMultiplier (charge_catch it s) = scoreMultiplier s"
  "overchargeActive (charge_catch it s) = overchargeActive s"
  "equippedUtility (charge_catch it s) = equippedUtility s"
  "playerLevel (charge_catch it s) = playerLevel s"
  "difficulty (charge_catch it s) = difficulty s"
  "performanceManager (charge_catch it s) = performanceManager s"
  by (simp_all add: charge_catch_def)

lemma count_catch_frame [simp]:
  "score (count_catch s) = score s"
  "level (count_catch s) = level s"
  "lives (count_catch s) = lives s"
  "itemSpeed (count_catch s) = itemSpeed s"
  "spawnRate (count_catch s) = spawnRate s"
  "spawnTimerDelay (count_catch s) = spawnTimerDelay s"
  "performanceScore (count_catch s) = performanceScore s"
  "isChaosMode (count_catch s) = isChaosMode s"
  "activePowerups (count_catch s) = activePowerups s"
  "shieldUses (count_catch s) = shieldUses s"
  "recentCatches (count_catch s) = recentCatches s"
  "terminal (count_catch s) = terminal s"
  "itemPool (count_catch s) = itemPool s"
  "scoreMultiplier (count_catch s) = scoreMultiplier s"
  "overchargeActive (count_catch s) = overchargeActive s"
  "equippedUtility (count_catch s) = equippedUtility s"
  "playerLevel (count_catch s) = playerLevel s"
  "difficulty (count_catch s) = difficulty s"
  "performanceManager (count_catch s) = performanceManager s"
  by (simp_all add: count_catch_def)

lemma push_catch_frame [simp]:
  "score (push_catch now v s) = score s"
  "level (push_catch now v s) = level s"
  "lives (push_catch now v s) = lives s"
  "combo (push_catch now v s) = combo s"
  "itemSpeed (push_catch now v s) = itemSpeed s"
  "spawnRate (push_catch now v s) = spawnRate s"
  "spawnTimerDelay (push_catch now v s) = spawnTimerDelay s"
  "performanceScore (push_catch now v s) = performanceScore s"
  "isChaosMode (push_catch now v s) = isChaosMode s"
  "activePowerups (push_catch now v s) = activePowerups s"
  "shieldUses (push_catch now v s) = shieldUses s"
  "terminal (push_catch now v s) = terminal s"
  "itemPool (push_catch now v s) = itemPool s"
  "scoreMultiplier (push_catch now v s) = scoreMultiplier s"
  "overchargeActive (push_catch now v s) = overchargeActive s"
  "equippedUtility (push_catch now v s) = equippedUtility s"
  "playerLevel (push_catch now v s) = playerLevel s"
  "difficulty (push_catch now v s) = difficulty s"
  "performanceManager (push_catch now v s) = performanceManager s"
  by (simp_all add: push_catch_def)

lemma streak_catch_frame [simp]:
  "score (streak_catch s) = score s"
  "level (streak_catch s) = level s"
  "lives (streak_catch s) = lives s"
  "combo (streak_catch s) = combo s"
  "itemSpeed (streak_catch s) = itemSpeed s"
  "spawnRate (streak_catch s) = spawnRate s"
  "spawnTimerDelay (streak_catch s) = spawnTimerDelay s"
  "performanceScore (streak_catch s) = performanceScore s"
  "isChaosMode (streak_catch s) = isChaosMode s"
  "activePowerups (streak_catch s) = activePowerups s"
  "shieldUses (streak_catch s) = shieldUses s"
  "recentCatches (streak_catch s) = recentCatches s"
  "terminal (streak_catch s) = terminal s"
  "itemPool (streak_catch s) = itemPool s"
  "scoreMultiplier (streak_catch s) = scoreMultiplier s"
  "overchargeActive (streak_catch s) = overchargeActive s"
  "equippedUtility (streak_catch s) = equippedUtility s"
  "playerLevel (streak_catch s) = playerLevel s"
  "difficulty (streak_catch s) = difficulty s"
  "performanceManager (streak_catch s) = performanceManager s"
  by (simp_all add: streak_catch_def)

lemma stamp_catch_frame [simp]:
  "score (stamp_catch now s) = score s"
  "level (stamp_catch now s) = level s"
  "lives (stamp_catch now s) = lives s"
  "combo (stamp_catch now s) = combo s"
  "itemSpeed (stamp_catch now s) = itemSpeed s"
  "spawnRate (stamp_catch now s) = spawnRate s"
  "spawnTimerDelay (stamp_catch now s) = spawnTimerDelay s"
  "performanceScore (stamp_catch now s) = performanceScore s"
  "isChaosMode (stamp_catch now s) = isChaosMode s"
  "activePowerups (stamp_catch now s) = activePowerups s"
  "shieldUses (stamp_catch now s) = shieldUses s"
  "recentCatches (stamp_catch now s) = recentCatches s"
  "terminal (stamp_catch now s) = terminal s"
  "itemPool (stamp_catch now s) = itemPool s"
  "scoreMultiplier (stamp_catch now s) = scoreMultiplier s"
  "overchargeActive (stamp_catch now s) = overchargeActive s"
  "equippedUtility (stamp_catch now s) = equippedUtility s"
  "playerLevel (stamp_catch now s) = playerLevel s"
  "difficulty (stamp_catch now s) = difficulty s"
  "performanceManager (stamp_catch now s) = performanceManager s"
  by (simp_all add: stamp_catch_def)

lemma award_points_frame [simp]:
  "level (award_points it s) = level s"
  "lives (award_points it s) = lives s"
  "combo (award_points it s) = combo s"
  "itemSpeed (award_points it s) = itemSpeed s"
  "spawnRate (award_points it s) = spawnRate s"
  "spawnTimerDelay (award_points it s) = spawnTimerDelay s"
  "performanceScore (award_points it s) = performanceScore s"
  "isChaosMode (award_points it s) = isChaosMode s"
  "activePowerups (award_points it s) = activePowerups s"
  "shieldUses (award_points it s) = shieldUses s"
  "recentCatches (award_points it s) = recentCatches s"
  "terminal (award_points it s) = terminal s"
  "itemPool (award_points it s) = itemPool s"
  "scoreMultiplier (award_points it s) = scoreMultiplier s"
  "overchargeActive (award_points it s) = overchargeActive s"
  "equippedUtility (award_points it s) = equippedUtility s"
  "playerLevel (award_points it s) = playerLevel s"
  "difficulty (award_points it s) = difficulty s"
  "performanceManager (award_points it s) = performanceManager s"
  by (simp_all add: award_points_def Let_def)

lemma activateGlitchEffect_frame [simp]:
  "score (activateGlitchEffect s) = score s"
  "level (activateGlitchEffect s) = level s"
  "lives (activateGlitchEffect s) = lives s"
  "combo (activateGlitchEffect s) = combo s"
  "itemSpeed (activateGlitchEffect s) = itemSpeed s"
  "spawnRate (activateGlitchEffect s) = spawnRate s"
  "spawnTimerDelay (activateGlitchEffect s) = spawnTimerDelay s"
  "performanceScore (activateGlitchEffect s) = performanceScore s"
  "isChaosMode (activateGlitchEffect s) = isChaosMode s"
  "activePowerups (activateGlitchEffect s) = activePowerups s"
  "shieldUses (activateGlitchEffect s) = shieldUses s"
  "recentCatches (activateGlitchEffect s) = recentCatches s"
  "terminal (activateGlitchEffect s) = terminal s"
  "itemPool (activateGlitchEffect s) = itemPool s"
  "scoreMultiplier (activateGlitchEffect s) = scoreMultiplier s"
  "overchargeActive (activateGlitchEffect s) = overchargeActive s"
  "equippedUtility (activateGlitchEffect s) = equippedUtility s"
  "playerLevel (activateGlitchEffect s) = playerLevel s"
  "difficulty (activateGlitchEffect s) = difficulty s"
  "performanceManager (activateGlitchEffect s) = performanceManager s"
  by (simp_all add: activateGlitchEffect_def)

lemma activateVirusEffect_frame [simp]:
  "score (activateVirusEffect s) = score s"
  "level (activateVirusEffect s) = level s"
  "lives (activateVirusEffect s) = lives s"
  "combo (activateVirusEffect s) = combo s"
  "itemSpeed (activateVirusEffect s) = itemSpeed s"
  "spawnRate (activateVirusEffect s) = spawnRate s"
  "spawnTimerDelay (activateVirusEffect s) = spawnTimerDelay s"
  "performanceScore (activateVirusEffect s) = performanceScore s"
  "isChaosMode (activateVirusEffect s) = isChaosMode s"
  "activePowerups (activateVirusEffect s) = activePowerups s"
  "shieldUses (activateVirusEffect s) = shieldUses s"
  "recentCatches (activateVirusEffect s) = recentCatches s"
  "terminal (activateVirusEffect s) = terminal s"
  "itemPool (activateVirusEffect s) = itemPool s"
  "scoreMultiplier (activateVirusEffect s) = scoreMultiplier s"
  "overchargeActive (activateVirusEffect s) = overchargeActive s"
  "equippedUtility (activateVirusEffect s) = equippedUtility s"
  "playerLevel (activateVirusEffect s) = playerLevel s"
  "difficulty (activateVirusEffect s) = difficulty s"
  "performanceManager (activateVirusEffect s) = performanceManager s"
  by (simp_all add: activateVirusEffect_def)

lemma activateMultiplier_frame [simp]:
  "score (activateMultiplier s) = score s"
  "level (activateMultiplier s) = level s"
  "lives (activateMultiplier s) = lives s"
  "combo (activateMultiplier s) = combo s"
  "itemSpeed (activateMultiplier s) = itemSpeed s"
  "spawnRate (activateMultiplier s) = spawnRate s"
  "spawnTimerDelay (activateMultiplier s) = spawnTimerDelay s"
  "performanceScore (activateMultiplier s) = performanceScore s"
  "isChaosMode (activateMultiplier s) = isChaosMode s"
  "activePowerups (activateMultiplier s) = activePowerups s"
  "shieldUses (activateMultiplier s) = shieldUses s"
  "recentCatches (activateMultiplier s) = recentCatches s"
  "terminal (activateMultiplier s) = terminal s"
  "itemPool (activateMultiplier s) = itemPool s"
  "overchargeActive (activateMultiplier s) = overchargeActive s"
  "equippedUtility (activateMultiplier s) = equippedUtility s"
  "playerLevel (activateMultiplier s) = playerLevel s"
  "difficulty (activateMultiplier s) = difficulty s"
  "performanceManager (activateMultiplier s) = performanceManager s"
  by (simp_all add: activateMultiplier_def)

lemma activateFreeze_frame [simp]:
  "score (activateFreeze s) = score s"
  "level (activateFreeze s) = level s"
  "lives (activateFreeze s) = lives s"
  "combo (activateFreeze s) = combo s"
  "spawnRate (activateFreeze s) = spawnRate s"
  "spawnTimerDelay (activateFreeze s) = spawnTimerDelay s"
  "performanceScore (activateFreeze s) = performanceScore s"
  "isChaosMode (activateFreeze s) = isChaosMode s"
  "activePowerups (activateFreeze s) = activePowerups s"
  "shieldUses (activateFreeze s) = shieldUses s"
  "recentCatches (activateFreeze s) = recentCatches s"
  "terminal (activateFreeze s) = terminal s"
  "itemPool (activateFreeze s) = itemPool s"
  "scoreMultiplier (activateFreeze s) = scoreMultiplier s"
  "overchargeActive (activateFreeze s) = overchargeActive s"
  "equippedUtility (activateFreeze s) = equippedUtility s"
  "playerLevel (activateFreeze s) = playerLevel s"
  "difficulty (activateFreeze s) = difficulty s"
  "performanceManager (activateFreeze s) = performanceManager s"
  by (simp_all add: activateFreeze_def)

lemma convert_bomb_frame [simp]:
  "score (convert_bomb i s) = score s"
  "level (convert_bomb i s) = level s"
  "lives (convert_bomb i s) = lives s"
  "combo (convert_bomb i s) = combo s"
  "itemSpeed (convert_bomb i s) = itemSpeed s"
  "spawnRate (convert_bomb i s) = spawnRate s"
  "spawnTimerDelay (convert_bomb i s) = spawnTimerDelay s"
  "performanceScore (convert_bomb i s) = performanceScore s"
  "isChaosMode (convert_bomb i s) = isChaosMode s"
  "activePowerups (convert_bomb i s) = activePowerups s"
  "shieldUses (convert_bomb i s) = shieldUses s"
  "recentCatches (convert_bomb i s) = recentCatches s"
  "terminal (convert_bomb i s) = terminal s"
  "scoreMultiplier (convert_bomb i s) = scoreMultiplier s"
  "overchargeActive (convert_bomb i s) = overchargeActive s"
  "equippedUtility (convert_bomb i s) = equippedUtility s"
  "playerLevel (convert_bomb i s) = playerLevel s"
  "difficulty (convert_bomb i s) = difficulty s"
  "performanceManager (convert_bomb i s) = performanceManager s"
  by (simp_all add: convert_bomb_def)

lemma activateOvercharge_frame [simp]:
  "score (activateOvercharge s) = score s"
  "level (activateOvercharge s) = level s"
  "lives (activateOvercharge s) = lives s"
  "combo (activateOvercharge s) = combo s"
  "itemSpeed (activateOvercharge s) = itemSpeed s"
  "spawnRate (activateOvercharge s) = spawnRate s"
  "spawnTimerDelay (activateOvercharge s) = spawnTimerDelay s"
  "performanceScore (activateOvercharge s) = performanceScore s"
  "isChaosMode (activateOvercharge s) = isChaosMode s"
  "activePowerups (activateOvercharge s) = activePowerups s"
  "shieldUses (activateOvercharge s) = shieldUses s"
  "recentCatches (activateOvercharge s) = recentCatches s"
  "terminal (activateOvercharge s) = terminal s"
  "itemPool (activateOvercharge s) = itemPool s"
  "scoreMultiplier (activateOvercharge s) = scoreMultiplier s"
  "equippedUtility (activateOvercharge s) = equippedUtility s"
  "playerLevel (activateOvercharge s) = playerLevel s"
  "difficulty (activateOvercharge s) = difficulty s"
  "performanceManager (activateOvercharge s) = performanceManager s"
  by (simp_all add: activateOvercharge_def)

lemma activateMystery_frame [simp]:
  "level (activateMystery d i s) = level s"
  "combo (activateMystery d i s) = combo s"
  "itemSpeed (activateMystery d i s) = itemSpeed s"
  "spawnRate (activateMystery d i s) = spawnRate s"
  "spawnTimerDelay (activateMystery d i s) = spawnTimerDelay s"
  "performanceScore (activateMystery d i s) = performanceScore s"
  "isChaosMode (activateMystery d i s) = isChaosMode s"
  "activePowerups (activateMystery d i s) = activePowerups s"
  "shieldUses (activateMystery d i s) = shieldUses s"
  "recentCatches (activateMystery d i s) = recentCatches s"
  "terminal (activateMystery d i s) = terminal s"
  "overchargeActive (activateMystery d i s) = overchargeActive s"
  "equippedUtility (activateMystery d i s) = equippedUtility s"
  "playerLevel (activateMystery d i s) = playerLevel s"
  "difficulty (activateMystery d i s) = difficulty s"
  "performanceManager (activateMystery d i s) = performanceManager s"
  by (simp_all add: activateMystery_def)

lemma levelUp_effect [simp]:
  "level (levelUp s) = level s + 1"
  "itemSpeed (levelUp s) = itemSpeed s + 20"
  "spawnRate (levelUp s) = max 500 (spawnRate s - 100)"
  "spawnTimerDelay (levelUp s) = max 500 (spawnRate s - 100)"
  "isChaosMode (levelUp s) = (isChaosMode s \<or> (level s + 1) mod 5 = 0)"
  by (simp_all add: levelUp_def activateChaosMode_def Let_def)

lemma step_effect [simp]:
  "combo (count_catch s) = combo s + 1"
  "recentCatches (push_catch now v s) =
     filter (\<lambda>c. now - fst c < 10000) (recentCatches s @ [(now, v)])"
  "itemPool (release_item i s) = release item_resetFunc i (itemPool s)"
  "terminal (gameOver s) = True"
  "itemPool (gameOver s) = clear (itemPool s)"
  "scoreMultiplier (activateMultiplier s) = 2"
  by (simp_all add: count_catch_def push_catch_def release_item_def gameOver_def
      activateMultiplier_def)

lemma convert_bomb_store [simp]:
  "store (itemPool (convert_bomb i s)) =
     on_obj i (\<lambda>i. i\<lparr>itemType := Some Gold, sp_value := 50\<rparr>) (store (itemPool s))"
  by (simp add: convert_bomb_def)

lemma award_points_score:
  "score (award_points it s) =
     score s + \<lfloor>of_int (sp_value it) * of_int (level s) * of_int (min (combo s div 5 + 1) 5)
                 * of_int (scoreMultiplier s) * (if overchargeActive s then 2 else 1)
                 * (if equippedUtility s = ''fortune_aura'' then 3/2 else 1)
                 * comboMultiplier (getStatBonuses (playerLevel s))\<rfloor>"
  by (simp add: award_points_def Let_def)

lemma catch_score_score:
  "score (catchItem_score now item s) =
     score s + \<lfloor>of_int (sp_value (store (itemPool s) ! item)) * of_int (level s)
                 * of_int (min ((combo s + 1) div 5 + 1) 5) * of_int (scoreMultiplier s)
                 * (if overchargeActive s then 2 else 1)
                 * (if equippedUtility s = ''fortune_aura'' then 3/2 else 1)
                 * comboMultiplier (getStatBonuses (playerLevel s))\<rfloor>"
  by (simp add: catchItem_score_def Let_def award_points_score)

lemma catch_score_frame [simp]:
  "combo (catchItem_score now item s) = combo s + 1"
  "lives (catchItem_score now item s) = lives s"
  "activePowerups (catchItem_score now item s) = activePowerups s"
  "shieldUses (catchItem_score now item s) = shieldUses s"
  "terminal (catchItem_score now item s) = terminal s"
  "itemPool (catchItem_score now item s) = release item_resetFunc item (itemPool s)"
  "scoreMultiplier (catchItem_score now item s) = scoreMultiplier s"
  "overchargeActive (catchItem_score now item s) = overchargeActive s"
  "equippedUtility (catchItem_score now item s) = equippedUtility s"
  "playerLevel (catchItem_score now item s) = playerLevel s"
  "difficulty (catchItem_score now item s) = difficulty s"
  "performanceManager (catchItem_score now item s) = performanceManager s"
  "recentCatches (catchItem_score now item s) =
     filter (\<lambda>c. now - fst c < 10000)
       (recentCatches s @ [(now, sp_value (store (itemPool s) ! item))])"
  by (simp_all add: catchItem_score_def Let_def)

lemmas scene_eval =
  start_scene_def spawn_of_def create_def setupObjectPools_def new_PerformanceManager_def
  spawnItem_def spawn_one_def spawn_choice_def item_createFunc_def item_resetFunc_def
  setActive_def setVisible_def

lemma miss_shielded:
  assumes "item < length (store (itemPool s))"
    "itemType (store (itemPool s) ! item) \<noteq> Some Bomb" "Shield \<in> activePowerups s"
  shows "shieldUses (missItem item s) = shieldUses s - 1
        \<and> combo (missItem item s) = combo s
        \<and> lives (missItem item s) = lives s
        \<and> terminal (missItem item s) = terminal s"
  using assms by (simp add: missItem_def Let_def)

lemma miss_unshielded:
  assumes "item < length (store (itemPool s))"
    "itemType (store (itemPool s) ! item) \<noteq> Some Bomb" "Shield \<notin> activePowerups s"
  shows "combo (missItem item s) = 0
        \<and> lives (missItem item s) = lives s - 1
        \<and> shieldUses (missItem item s) = shieldUses s
        \<and> Shield \<notin> activePowerups (missItem item s)
        \<and> terminal (missItem item s) = (terminal s \<or> lives s - 1 \<le> 0)"
  using assms by (simp add: missItem_def Let_def)

lemma miss_unshielded_pool:
  assumes "item < length (store (itemPool s))"
    "itemType (store (itemPool s) ! item) \<noteq> Some Bomb" "Shield \<notin> activePowerups s"
    "1 < lives s"
  shows "itemPool (missItem item s) = release item_resetFunc item (itemPool s)"
  using assms by (simp add: missItem_def Let_def)

lemma miss_bomb:
  assumes "item < length (store (itemPool s))"
    "itemType (store (itemPool s) ! item) = Some Bomb"
  shows "shieldUses (missItem item s) = shieldUses s
        \<and> activePowerups (missItem item s) = activePowerups s
        \<and> combo (missItem item s) = combo s
        \<and> lives (missItem item s) = lives s
        \<and> terminal (missItem item s) = terminal s"
  using assms by (simp add: missItem_def Let_def)

lemma three_misses:
  assumes l: "lives s = 3" and sh: "Shield \<notin> activePowerups s" and nt: "\<not> terminal s"
    and 1: "i1 < length (store (itemPool s))"
           "itemType (store (itemPool s) ! i1) \<noteq> Some Bomb"
    and 2: "i2 < length (store (itemPool (missItem i1 s)))"
           "itemType (store (itemPool (missItem i1 s)) ! i2) \<noteq> Some Bomb"
    and 3: "i3 < length (store (itemPool (missItem i2 (missItem i1 s))))"
           "itemType (store (itemPool (missItem i2 (missItem i1 s))) ! i3) \<noteq> Some Bomb"
  shows "lives (missItem i1 s) = 2 \<and> lives (missItem i2 (missItem i1 s)) = 1
     \<and> \<not> terminal (missItem i2 (missItem i1 s))
     \<and> lives (missItem i3 (missItem i2 (missItem i1 s))) = 0
     \<and> terminal (missItem i3 (missItem i2 (missItem i1 s)))"
proof -
  note a = miss_unshielded [OF 1 sh]
  from a have sh1: "Shield \<notin> activePowerups (missItem i1 s)" by simp
  note b = miss_unshielded [OF 2 sh1]
  from b have sh2: "Shield \<notin> activePowerups (missItem i2 (missItem i1 s))" by simp
  note c = miss_unshielded [OF 3 sh2]
  from a b c l nt show ?thesis by simp
qed

text \<open>
  Claim C5, amended. A missed item that is not a bomb costs one shield charge when a
  shield is active, and combo, lives and the run go on unchanged; without a shield the
  combo is reset to 0, one life is lost, and the run is over exactly when it was over
  before or no life is left. A missed bomb changes neither shield, combo, lives nor the
  run. Three misses of items that are not bombs, from three lives and without a shield,
  leave 2, 1 and 0 lives, and the run is over after the third and not before.
\<close>

theorem miss_item_effect:
  "(item < length (store (itemPool s)) \<and> itemType (store (itemPool s) ! item) \<noteq> Some Bomb
      \<and> Shield \<in> activePowerups s \<longrightarrow>
        shieldUses (missItem item s) = shieldUses s - 1
        \<and> combo (missItem item s) = combo s
        \<and> lives (missItem item s) = lives s
        \<and> terminal (missItem item s) = terminal s)
   \<and> (item < length (store (itemPool s)) \<and> itemType (store (itemPool s) ! item) \<noteq> Some Bomb
      \<and> Shield \<notin> activePowerups s \<longrightarrow>
        combo (missItem item s) = 0
        \<and> lives (missItem item s) = lives s - 1
        \<and> shieldUses (missItem item s) = shieldUses s
        \<and> Shield \<notin> activePowerups (missItem item s)
        \<and> terminal (missItem item s) = (terminal s \<or> lives s - 1 \<le> 0))
   \<and> (item < length (store (itemPool s)) \<and> itemType (store (itemPool s) ! item) = Some Bomb \<longrightarrow>
        shieldUses (missItem item s) = shieldUses s
        \<and> activePowerups (missItem item s) = activePowerups s
        \<and> combo (missItem item s) = combo s
        \<and> lives (missItem item s) = lives s
        \<and> terminal (missItem item s) = terminal s)
   \<and> (lives s = 3 \<and> Shield \<notin> activePowerups s \<and> \<not> terminal s
      \<and> i1 < length (store (itemPool s))
      \<and> itemType (store (itemPool s) ! i1) \<noteq> Some Bomb
      \<and> i2 < length (store (itemPool (missItem i1 s)))
      \<and> itemType (store (itemPool (missItem i1 s)) ! i2) \<noteq> Some Bomb
      \<and> i3 < length (store (itemPool (missItem i2 (missItem i1 s))))
      \<and> itemType (store (itemPool (missItem i2 (missItem i1 s))) ! i3) \<noteq> Some Bomb \<longrightarrow>
        lives (missItem i1 s) = 2 \<and> lives (missItem i2 (missItem i1 s)) = 1
        \<and> \<not> terminal (missItem i2 (missItem i1 s))
        \<and> lives (missItem i3 (missItem i2 (missItem i1 s))) = 0
        \<and> terminal (missItem i3 (missItem i2 (missItem i1 s))))"
  using miss_shielded [of item s] miss_unshielded [of item s] miss_bomb [of item s]
    three_misses [of s i1 i2 i3]
  by blast

lemma bomb_scene_eval:
  "24 \<in> set (active (itemPool bomb_scene))"
  "24 < length (store (itemPool bomb_scene))"
  "itemType (store (itemPool bomb_scene) ! 24) = Some Bomb"
  "Shield \<notin> activePowerups bomb_scene"
  "lives bomb_scene = 3"
  by (simp_all add: bomb_scene_def scene_eval pool_eval)

text \<open>
  Claim C5 as stated fails for bombs: in a new run a bomb is spawned (reference 24) and
  falls through; no shield is active, and the lives stay at 3.
\<close>

theorem miss_bomb_counterexample:
  "24 \<in> set (active (itemPool bomb_scene))
   \<and> Shield \<notin> activePowerups bomb_scene
   \<and> lives bomb_scene = 3
   \<and> lives (missItem 24 bomb_scene) = 3
   \<and> \<not> (if Shield \<in> activePowerups bomb_scene
         then shieldUses (missItem 24 bomb_scene) = shieldUses bomb_scene - 1
              \<and> combo (missItem 24 bomb_scene) = combo bomb_scene
              \<and> lives (missItem 24 bomb_scene) = lives bomb_scene
         else combo (missItem 24 bomb_scene) = 0
              \<and> lives (missItem 24 bomb_scene) = lives bomb_scene - 1)"
  using miss_bomb [OF bomb_scene_eval(2,3)] by (simp add: bomb_scene_eval)

lemma collect_shield:
  "activePowerups (collectPowerup Shield s) = insert Shield (activePowerups s)"
  "lives (collectPowerup Shield s) = lives s"
  "itemPool (collectPowerup Shield s) = itemPool s"
  "shieldUses (collectPowerup Shield s) = 3 + shieldBonus (getStatBonuses (playerLevel s))"
  by (simp_all add: collectPowerup_def)

lemma three_regular_level: "shieldBonus (getStatBonuses (playerLevel three_regular)) = 0"
  by (simp add: three_regular_def scene_eval pool_eval getStatBonuses_def getLevelPerks_def)

lemma three_regular_eval:
  "lives three_regular = 3" "Shield \<notin> activePowerups three_regular"
  "\<not> terminal three_regular"
  "24 < length (store (itemPool three_regular))"
  "itemType (store (itemPool three_regular) ! 24) \<noteq> Some Bomb"
  "23 < length (store (release item_resetFunc 24 (itemPool three_regular)))"
  "itemType (store (release item_resetFunc 24 (itemPool three_regular)) ! 23) \<noteq> Some Bomb"
  "22 < length (store (release item_resetFunc 23
           (release item_resetFunc 24 (itemPool three_regular))))"
  "itemType (store (release item_resetFunc 23
           (release item_resetFunc 24 (itemPool three_regular))) ! 22) \<noteq> Some Bomb"
  by (simp_all add: three_regular_def scene_eval pool_eval)

text \<open>
  Three regular items spawned in a new run and missed one after the other; the same miss
  with a shield collected before; and the missed bomb.
\<close>

theorem miss_item_effect_witness:
  "lives three_regular = 3 \<and> Shield \<notin> activePowerups three_regular \<and> \<not> terminal three_regular
   \<and> 24 < length (store (itemPool three_regular))
   \<and> itemType (store (itemPool three_regular) ! 24) \<noteq> Some Bomb
   \<and> 23 < length (store (itemPool (missItem 24 three_regular)))
   \<and> itemType (store (itemPool (missItem 24 three_regular)) ! 23) \<noteq> Some Bomb
   \<and> 22 < length (store (itemPool (missItem 23 (missItem 24 three_regular))))
   \<and> itemType (store (itemPool (missItem 23 (missItem 24 three_regular))) ! 22) \<noteq> Some Bomb
   \<and> combo (missItem 24 three_regular) = 0
   \<and> lives (missItem 24 three_regular) = 2
   \<and> lives (missItem 23 (missItem 24 three_regular)) = 1
   \<and> \<not> terminal (missItem 23 (missItem 24 three_regular))
   \<and> lives (missItem 22 (missItem 23 (missItem 24 three_regular))) = 0
   \<and> terminal (missItem 22 (missItem 23 (missItem 24 three_regular)))
   \<and> Shield \<in> activePowerups (collectPowerup Shield three_regular)
   \<and> lives (missItem 24 (collectPowerup Shield three_regular)) = 3
   \<and> shieldUses (missItem 24 (collectPowerup Shield three_regular)) = 2
   \<and> itemType (store (itemPool bomb_scene) ! 24) = Some Bomb
   \<and> lives (missItem 24 bomb_scene) = lives bomb_scene"
proof -
  note E = three_regular_eval
  note T = miss_item_effect [of 24 three_regular 24 23 22]
  have a: "combo (missItem 24 three_regular) = 0 \<and> lives (missItem 24 three_regular) = 2
      \<and> Shield \<notin> activePowerups (missItem 24 three_regular)"
    using T E(1-5) by simp
  have p1: "itemPool (missItem 24 three_regular)
      = release item_resetFunc 24 (itemPool three_regular)"
    by (rule miss_unshielded_pool) (simp_all add: E)
  have h2: "23 < length (store (itemPool (missItem 24 three_regular)))"
    "itemType (store (itemPool (missItem 24 three_regular)) ! 23) \<noteq> Some Bomb"
    using E(6,7) by (simp_all add: p1)
  have p2: "itemPool (missItem 23 (missItem 24 three_regular))
      = release item_resetFunc 23 (release item_resetFunc 24 (itemPool three_regular))"
    using miss_unshielded_pool [OF h2] a by (simp add: p1)
  have h3: "22 < length (store (itemPool (missItem 23 (missItem 24 three_regular))))"
    "itemType (store (itemPool (missItem 23 (missItem 24 three_regular))) ! 22) \<noteq> Some Bomb"
    using E(8,9) by (simp_all add: p2)
  have c: "lives (missItem 24 three_regular) = 2
        \<and> lives (missItem 23 (missItem 24 three_regular)) = 1
        \<and> \<not> terminal (missItem 23 (missItem 24 three_regular))
        \<and> lives (missItem 22 (missItem 23 (missItem 24 three_regular))) = 0
        \<and> terminal (missItem 22 (missItem 23 (missItem 24 three_regular)))"
    using T E(1-5) h2 h3 by blast
  define sh where "sh = collectPowerup Shield three_regular"
  have s: "Shield \<in> activePowerups sh" "lives sh = 3" "shieldUses sh = 3"
     "24 < length (store (itemPool sh))" "itemType (store (itemPool sh) ! 24) \<noteq> Some Bomb"
    using E by (simp_all add: sh_def collect_shield three_regular_level)
  have d: "lives (missItem 24 sh) = 3 \<and> shieldUses (missItem 24 sh) = 2"
    using miss_item_effect [of 24 sh] s by simp
  have b: "lives (missItem 24 bomb_scene) = lives bomb_scene"
    using miss_item_effect [of 24 bomb_scene] bomb_scene_eval by blast
  from E(1-5) h2 h3 a c s(1) d b bomb_scene_eval(3) show ?thesis
    unfolding sh_def by blast
qed

lemma spawn_one_frame [simp]:
  "score (spawn_one x r now s) = score s"
  "level (spawn_one x r now s) = level s"
  "lives (spawn_one x r now s) = lives s"
  "combo (spawn_one x r now s) = combo s"
  "itemSpeed (spawn_one x r now s) = itemSpeed s"
  "spawnRate (spawn_one x r now s) = spawnRate s"
  "spawnTimerDelay (spawn_one x r now s) = spawnTimerDelay s"
  "performanceScore (spawn_one x r now s) = performanceScore s"
  "isChaosMode (spawn_one x r now s) = isChaosMode s"
  "activePowerups (spawn_one x r now s) = activePowerups s"
  "shieldUses (spawn_one x r now s) = shieldUses s"
  "recentCatches (spawn_one x r now s) = recentCatches s"
  "terminal (spawn_one x r now s) = terminal s"
  "scoreMultiplier (spawn_one x r now s) = scoreMultiplier s"
  "overchargeActive (spawn_one x r now s) = overchargeActive s"
  "equippedUtility (spawn_one x r now s) = equippedUtility s"
  "playerLevel (spawn_one x r now s) = playerLevel s"
  "difficulty (spawn_one x r now s) = difficulty s"
  "performanceManager (spawn_one x r now s) = performanceManager s"
  by (simp_all add: spawn_one_def split_def Let_def)

lemma spawn_loop_frame [simp]:
  "score (spawn_loop k i xs rands now s) = score s"
  "level (spawn_loop k i xs rands now s) = level s"
  "lives (spawn_loop k i xs rands now s) = lives s"
  "combo (spawn_loop k i xs rands now s) = combo s"
  "itemSpeed (spawn_loop k i xs rands now s) = itemSpeed s"
  "spawnRate (spawn_loop k i xs rands now s) = spawnRate s"
  "spawnTimerDelay (spawn_loop k i xs rands now s) = spawnTimerDelay s"
  "performanceScore (spawn_loop k i xs rands now s) = performanceScore s"
  "isChaosMode (spawn_loop k i xs rands now s) = isChaosMode s"
  "activePowerups (spawn_loop k i xs rands now s) = activePowerups s"
  "shieldUses (spawn_loop k i xs rands now s) = shieldUses s"
  "recentCatches (spawn_loop k i xs rands now s) = recentCatches s"
  "terminal (spawn_loop k i xs rands now s) = terminal s"
  "scoreMultiplier (spawn_loop k i xs rands now s) = scoreMultiplier s"
  "overchargeActive (spawn_loop k i xs rands now s) = overchargeActive s"
  "equippedUtility (spawn_loop k i xs rands now s) = equippedUtility s"
  "playerLevel (spawn_loop k i xs rands now s) = playerLevel s"
  "difficulty (spawn_loop k i xs rands now s) = difficulty s"
  "performanceManager (spawn_loop k i xs rands now s) = performanceManager s"
  by (induction k arbitrary: i s; simp)+

lemma spawnItem_frame [simp]:
  "score (spawnItem n xs rands now s) = score s"
  "level (spawnItem n xs rands now s) = level s"
  "lives (spawnItem n xs rands now s) = lives s"
  "combo (spawnItem n xs rands now s) = combo s"
  "itemSpeed (spawnItem n xs rands now s) = itemSpeed s"
  "spawnRate (spawnItem n xs rands now s) = spawnRate s"
  "spawnTimerDelay (spawnItem n xs rands now s) = spawnTimerDelay s"
  "performanceScore (spawnItem n xs rands now s) = performanceScore s"
  "isChaosMode (spawnItem n xs rands now s) = isChaosMode s"
  "activePowerups (spawnItem n xs rands now s) = activePowerups s"
  "shieldUses (spawnItem n xs rands now s) = shieldUses s"
  "recentCatches (spawnItem n xs rands now s) = recentCatches s"
  "terminal (spawnItem n xs rands now s) = terminal s"
  "scoreMultiplier (spawnItem n xs rands now s) = scoreMultiplier s"
  "overchargeActive (spawnItem n xs rands now s) = overchargeActive s"
  "equippedUtility (spawnItem n xs rands now s) = equippedUtility s"
  "playerLevel (spawnItem n xs rands now s) = playerLevel s"
  "difficulty (spawnItem n xs rands now s) = difficulty s"
  "performanceManager (spawnItem n xs rands now s) = performanceManager s"
  by (simp_all add: spawnItem_def Let_def)

lemma spawn_one_pool:
  "itemPool (spawn_one x r now s) =
     (snd (get item_createFunc item_resetFunc now (itemPool s)))
       \<lparr>store := on_obj (fst (get item_createFunc item_resetFunc now (itemPool s)))
                   (\<lambda>i. i\<lparr>sp_x := x, sp_y := - 30,
                          sp_speed := snd (snd (spawn_choice r (itemSpeed s))),
                          itemType := Some (fst (spawn_choice r (itemSpeed s))),
                          sp_value := fst (snd (spawn_choice r (itemSpeed s))),
                          affectedByGravity := True\<rparr>)
                   (store (snd (get item_createFunc item_resetFunc now (itemPool s))))\<rparr>"
  by (simp add: spawn_one_def split_def Let_def)

lemma spawn_of_pool:
  assumes "int (length (active (itemPool s))) < 8"
  shows "itemPool (spawn_of r s) = itemPool (spawn_one 100 r 0 s)"
  using assms by (simp add: spawn_of_def spawnItem_def Let_def)

lemma spawn_of_pop:
  assumes a: "int (length (active (itemPool s))) < 8"
    and p: "pool (itemPool s) \<noteq> []"
    and l: "last (pool (itemPool s)) < length (store (itemPool s))"
  shows "active (itemPool (spawn_of r s)) = active (itemPool s) @ [last (pool (itemPool s))]"
    "pool (itemPool (spawn_of r s)) = butlast (pool (itemPool s))"
    "length (store (itemPool (spawn_of r s))) = length (store (itemPool s))"
    "itemType (store (itemPool (spawn_of r s)) ! last (pool (itemPool s)))
       = Some (fst (spawn_choice r (itemSpeed s)))"
    "sp_value (store (itemPool (spawn_of r s)) ! last (pool (itemPool s)))
       = fst (snd (spawn_choice r (itemSpeed s)))"
  using p l by (simp_all add: spawn_of_pool [OF a] spawn_one_pool get_pop on_obj_def)

lemma spawn_of_frame [simp]:
  "score (spawn_of r s) = score s"
  "level (spawn_of r s) = level s"
  "lives (spawn_of r s) = lives s"
  "combo (spawn_of r s) = combo s"
  "itemSpeed (spawn_of r s) = itemSpeed s"
  "isChaosMode (spawn_of r s) = isChaosMode s"
  "activePowerups (spawn_of r s) = activePowerups s"
  "recentCatches (spawn_of r s) = recentCatches s"
  "performanceScore (spawn_of r s) = performanceScore s"
  "terminal (spawn_of r s) = terminal s"
  "scoreMultiplier (spawn_of r s) = scoreMultiplier s"
  "overchargeActive (spawn_of r s) = overchargeActive s"
  "equippedUtility (spawn_of r s) = equippedUtility s"
  "playerLevel (spawn_of r s) = playerLevel s"
  "difficulty (spawn_of r s) = difficulty s"
  by (simp_all add: spawn_of_def)

lemma catchItem_scoring:
  assumes "item < length (store (itemPool s))"
    "itemType (store (itemPool s) ! item) \<in> {Some Regular, Some Silver, Some Gold, Some Giant}"
  shows "catchItem now d item s = catchItem_score now item s"
  using assms by (auto simp: catchItem_def Let_def)




lemma prefill_pool:
  "pool (prefill k c p) = pool p @ [length (store p)..<length (store p) + k]"
proof (induction k arbitrary: p)
  case 0
  show ?case by simp
next
  case (Suc k)
  show ?case
    by (simp add: Suc.IH createManagedObject_def upt_conv_Cons)
qed

lemma upt_25: "[0..<25::nat] = [0..<24] @ [24]"
proof -
  have "(25::nat) = Suc 24" by simp
  then show ?thesis by (simp only: upt_Suc) simp
qed

lemma calm_start: "calm start_scene"
  by (simp add: calm_def start_scene_def create_def setupObjectPools_def
      new_PerformanceManager_def new_ObjectPool_def Let_def prefill_pool
      createManagedObject_def)

lemma bonuses_level1:
  "comboMultiplier (getStatBonuses 1) = 1" "currencyMultiplier (getStatBonuses 1) = 1"
  "shieldBonus (getStatBonuses 1) = 0"
  by (simp_all add: getStatBonuses_def getLevelPerks_def)

lemma spawn_of_calm:
  assumes c: "calm s"
  shows "active (itemPool (spawn_of r s)) = [24]"
    "pool (itemPool (spawn_of r s)) = [0..<24]"
    "length (store (itemPool (spawn_of r s))) = 25"
    "itemType (store (itemPool (spawn_of r s)) ! 24) = Some (fst (spawn_choice r (itemSpeed s)))"
    "sp_value (store (itemPool (spawn_of r s)) ! 24) = fst (snd (spawn_choice r (itemSpeed s)))"
proof -
  have a: "int (length (active (itemPool s))) < 8" using c by (simp add: calm_def)
  have p: "pool (itemPool s) \<noteq> []" using c by (simp add: calm_def)
  have e: "last (pool (itemPool s)) = 24" using c by (simp add: calm_def)
  have l: "last (pool (itemPool s)) < length (store (itemPool s))"
    using c e by (simp add: calm_def)
  note P = spawn_of_pop [OF a p l, of r]
  show "active (itemPool (spawn_of r s)) = [24]"
    using P(1) c e by (simp add: calm_def)
  show "pool (itemPool (spawn_of r s)) = [0..<24]"
    using P(2) c by (simp add: calm_def upt_25)
  show "length (store (itemPool (spawn_of r s))) = 25"
    using P(3) c by (simp add: calm_def)
  show "itemType (store (itemPool (spawn_of r s)) ! 24) = Some (fst (spawn_choice r (itemSpeed s)))"
    using P(4) e by simp
  show "sp_value (store (itemPool (spawn_of r s)) ! 24) = fst (snd (spawn_choice r (itemSpeed s)))"
    using P(5) e by simp
qed

lemma floor_int_product:
  "\<lfloor>rat_of_int a * rat_of_int b * rat_of_int c\<rfloor> = a * b * c"
proof -
  have "rat_of_int a * rat_of_int b * rat_of_int c = rat_of_int (a * b * c)" by simp
  then show ?thesis by (simp only: floor_of_int)
qed

lemma play_plain:
  assumes c: "calm s"
    and ty: "fst (spawn_choice r (itemSpeed s)) \<in> {Regular, Silver, Gold, Giant}"
  shows "calm (play r now s)"
    "score (play r now s) =
       score s + fst (snd (spawn_choice r (itemSpeed s))) * level s
                 * min ((combo s + 1) div 5 + 1) 5"
    "combo (play r now s) = combo s + 1"
    "lives (play r now s) = lives s"
    "terminal (play r now s) = terminal s"
    "activePowerups (play r now s) = activePowerups s"
    "recentCatches (play r now s) =
       filter (\<lambda>c. now - fst c < 10000)
         (recentCatches s @ [(now, fst (snd (spawn_choice r (itemSpeed s))))])"
proof -
  note S = spawn_of_calm [OF c, of r]
  have v: "24 < length (store (itemPool (spawn_of r s)))" using S(3) by simp
  have t: "itemType (store (itemPool (spawn_of r s)) ! 24)
      \<in> {Some Regular, Some Silver, Some Gold, Some Giant}"
    using S(4) ty by auto
  have e: "play r now s = catchItem_score now 24 (spawn_of r s)"
    unfolding play_def by (rule catchItem_scoring [OF v t])
  have q: "scoreMultiplier s = 1" "\<not> overchargeActive s" "equippedUtility s = ''none''"
    "playerLevel s = 1" "difficulty s = ''normal''"
    using c by (simp_all add: calm_def)
  show "calm (play r now s)"
    using S q by (simp add: e calm_def release_def upt_25)
  show "score (play r now s) =
       score s + fst (snd (spawn_choice r (itemSpeed s))) * level s
                 * min ((combo s + 1) div 5 + 1) 5"
    using S(5) q by (simp add: e catch_score_score bonuses_level1 floor_int_product)
  show "combo (play r now s) = combo s + 1" by (simp add: e)
  show "lives (play r now s) = lives s" by (simp add: e)
  show "terminal (play r now s) = terminal s" by (simp add: e)
  show "activePowerups (play r now s) = activePowerups s" by (simp add: e)
  show "recentCatches (play r now s) =
       filter (\<lambda>c. now - fst c < 10000)
         (recentCatches s @ [(now, fst (snd (spawn_choice r (itemSpeed s))))])"
    using S(5) by (simp add: e)
qed

lemma check_levelUp_level:
  "level (check_levelUp s) = (if score s mod 100 = 0 \<and> 0 < score s then level s + 1 else level s)"
  by (simp add: check_levelUp_def)

lemma catch_score_level:
  "level (catchItem_score now item s) =
     (if score (catchItem_score now item s) mod 100 = 0 \<and> 0 < score (catchItem_score now item s)
      then level s + 1 else level s)"
  by (simp add: catchItem_score_def Let_def check_levelUp_level)


lemma play_level:
  assumes c: "calm s"
    and ty: "fst (spawn_choice r (itemSpeed s)) \<in> {Regular, Silver, Gold, Giant}"
  shows "level (play r now s) =
     (if score (play r now s) mod 100 = 0 \<and> 0 < score (play r now s)
      then level s + 1 else level s)"
proof -
  note S = spawn_of_calm [OF c, of r]
  have v: "24 < length (store (itemPool (spawn_of r s)))" using S(3) by simp
  have t: "itemType (store (itemPool (spawn_of r s)) ! 24)
      \<in> {Some Regular, Some Silver, Some Gold, Some Giant}"
    using S(4) ty by auto
  have e: "play r now s = catchItem_score now 24 (spawn_of r s)"
    unfolding play_def by (rule catchItem_scoring [OF v t])
  show ?thesis
    unfolding e by (simp only: catch_score_level spawn_of_frame)
qed



lemma start_fields:
  "score start_scene = 0" "combo start_scene = 0" "level start_scene = 1"
  "lives start_scene = 3"
  by (simp_all add: start_scene_def create_def Let_def)










lemma check_levelUp_chaos:
  "isChaosMode (check_levelUp s) =
     (isChaosMode s \<or> (score s mod 100 = 0 \<and> 0 < score s \<and> (level s + 1) mod 5 = 0))"
proof (cases "score s mod 100 = 0 \<and> 0 < score s")
  case True
  then have "check_levelUp s = levelUp s"
    unfolding check_levelUp_def by (rule if_P)
  with True show ?thesis by simp
next
  case False
  then have "check_levelUp s = s"
    unfolding check_levelUp_def by (rule if_not_P)
  with False show ?thesis by auto
qed

lemma catch_score_chaos:
  "isChaosMode (catchItem_score now item s) =
     (isChaosMode s \<or> (score (catchItem_score now item s) mod 100 = 0
        \<and> 0 < score (catchItem_score now item s) \<and> (level s + 1) mod 5 = 0))"
  by (simp add: catchItem_score_def Let_def check_levelUp_chaos)





lemma spawn_choice_gold: "spawn_choice (1/5) spd = (Gold, 50, spd)"
  by (simp add: spawn_choice_def)


lemma foldl_snd_sum:
  "foldl (\<lambda>sum c. sum + snd c) (a::int) cs = a + sum_list (map snd cs)"
  by (induction cs arbitrary: a) simp_all

lemma sum_snd_nonneg:
  "list_all (\<lambda>c. 0 \<le> snd c) cs \<Longrightarrow> (0::int) \<le> sum_list (map snd cs)"
  by (induction cs) simp_all

lemma ups_score:
  "performanceScore (updatePerformanceScore s) =
     min 10 ((of_nat (length (recentCatches s)) / 10 + of_int (combo s) * (1/10)
              + of_int (sum_list (map snd (recentCatches s))) * (1/100)) / 3)"
  by (simp add: updatePerformanceScore_def Let_def foldl_snd_sum)

lemma ups_speed:
  "itemSpeed (updatePerformanceScore s) =
     spec_itemSpeed (difficulty s) (performanceScore (updatePerformanceScore s))"
  by (simp add: updatePerformanceScore_def Let_def spec_itemSpeed_def difficulty_speed_def)

lemma spawn_floor:
  assumes "ps \<le> (10::rat)"
  shows "max 500 (difficulty_spawn diff * max (7/10) (1 - ps * (3/100)))
     = difficulty_spawn diff * max (7/10) (1 - ps * (3/100))"
proof -
  have a: "(7/10::rat) \<le> max (7/10) (1 - ps * (3/100))" by simp
  have b: "(1000::rat) \<le> difficulty_spawn diff" by (simp add: difficulty_spawn_def)
  have "1000 * (7/10) \<le> difficulty_spawn diff * max (7/10) (1 - ps * (3/100))"
    by (rule mult_mono [OF b a]) (simp_all add: difficulty_spawn_def)
  then show ?thesis by simp
qed

lemma ups_delay:
  "spawnTimerDelay (updatePerformanceScore s) =
     spec_spawnDelay (difficulty s) (performanceScore (updatePerformanceScore s))"
  "spawnRate (updatePerformanceScore s) =
     spec_spawnDelay (difficulty s) (performanceScore (updatePerformanceScore s))"
proof -
  have le: "performanceScore (updatePerformanceScore s) \<le> 10"
    by (simp add: ups_score)
  have e: "spawnTimerDelay (updatePerformanceScore s) =
      max 500 (difficulty_spawn (difficulty s)
        * max (7/10) (1 - performanceScore (updatePerformanceScore s) * (3/100)))"
    "spawnRate (updatePerformanceScore s) =
      max 500 (difficulty_spawn (difficulty s)
        * max (7/10) (1 - performanceScore (updatePerformanceScore s) * (3/100)))"
    by (simp_all add: updatePerformanceScore_def Let_def difficulty_spawn_def)
  show "spawnTimerDelay (updatePerformanceScore s) =
     spec_spawnDelay (difficulty s) (performanceScore (updatePerformanceScore s))"
    unfolding e spec_spawnDelay_def by (rule spawn_floor [OF le])
  show "spawnRate (updatePerformanceScore s) =
     spec_spawnDelay (difficulty s) (performanceScore (updatePerformanceScore s))"
    unfolding e spec_spawnDelay_def by (rule spawn_floor [OF le])
qed

lemma ups_spec:
  assumes c: "0 \<le> combo s" and r: "list_all (\<lambda>c. 0 \<le> snd c) (recentCatches s)"
  shows "performanceScore (updatePerformanceScore s)
       = spec_performanceScore (recentCatches s) (combo s)"
    "0 \<le> performanceScore (updatePerformanceScore s)"
    "performanceScore (updatePerformanceScore s) \<le> 10"
proof -
  have "(0::rat) \<le> of_int (sum_list (map snd (recentCatches s)))"
    using sum_snd_nonneg [OF r] by simp
  moreover have "(0::rat) \<le> of_int (combo s)" using c by simp
  ultimately have n: "(0::rat) \<le> (of_nat (length (recentCatches s)) / 10
      + of_int (combo s) * (1/10)
      + of_int (sum_list (map snd (recentCatches s))) * (1/100)) / 3"
    by simp
  show "performanceScore (updatePerformanceScore s)
       = spec_performanceScore (recentCatches s) (combo s)"
    using n by (simp add: ups_score spec_performanceScore_def)
  show "0 \<le> performanceScore (updatePerformanceScore s)"
    using n by (simp add: ups_score)
  show "performanceScore (updatePerformanceScore s) \<le> 10"
    by (simp add: ups_score)
qed

lemma check_levelUp_speed:
  "itemSpeed (check_levelUp s) =
     itemSpeed s + (if score s mod 100 = 0 \<and> 0 < score s then 20 else 0)"
  "spawnTimerDelay (check_levelUp s) =
     (if score s mod 100 = 0 \<and> 0 < score s then max 500 (spawnRate s - 100)
      else spawnTimerDelay s)"
  by (simp_all add: check_levelUp_def)

lemma catch_score_perf:
  assumes c: "0 \<le> combo s" and r: "list_all (\<lambda>c. 0 \<le> snd c) (recentCatches s)"
    and v: "0 \<le> sp_value (store (itemPool s) ! item)"
  shows "recentCatches (catchItem_score now item s) =
      catch_window now (recentCatches s @ [(now, sp_value (store (itemPool s) ! item))])"
    "performanceScore (catchItem_score now item s) =
      spec_performanceScore (recentCatches (catchItem_score now item s))
        (combo (catchItem_score now item s))"
    "0 \<le> performanceScore (catchItem_score now item s)"
    "performanceScore (catchItem_score now item s) \<le> 10"
    "itemSpeed (catchItem_score now item s) =
      spec_itemSpeed (difficulty s) (performanceScore (catchItem_score now item s))
        + (if score (catchItem_score now item s) mod 100 = 0
              \<and> 0 < score (catchItem_score now item s) then 20 else 0)"
    "spawnTimerDelay (catchItem_score now item s) =
      (if score (catchItem_score now item s) mod 100 = 0
          \<and> 0 < score (catchItem_score now item s)
       then max 500 (spec_spawnDelay (difficulty s)
                       (performanceScore (catchItem_score now item s)) - 100)
       else spec_spawnDelay (difficulty s) (performanceScore (catchItem_score now item s)))"
proof -
  define T where "T = push_catch now (sp_value (store (itemPool s) ! item)) (count_catch s)"
  have Tc: "combo T = combo s + 1" and Td: "difficulty T = difficulty s"
    and Tr: "recentCatches T =
      catch_window now (recentCatches s @ [(now, sp_value (store (itemPool s) ! item))])"
    by (simp_all add: T_def catch_window_def)
  have c': "0 \<le> combo T" using c Tc by simp
  have r': "list_all (\<lambda>c. 0 \<le> snd c) (recentCatches T)"
    using r v by (simp add: Tr catch_window_def list_all_iff)
  note U = ups_spec [OF c' r']
  have ps: "performanceScore (catchItem_score now item s)
      = performanceScore (updatePerformanceScore T)"
    by (simp add: catchItem_score_def Let_def T_def)
  have sc: "score (catchItem_score now item s)
      = score (award_points (store (itemPool s) ! item)
          (charge_catch (store (itemPool s) ! item)
            (gold_catch (store (itemPool s) ! item)
              (streak_catch (updatePerformanceScore T)))))"
    by (simp add: catchItem_score_def Let_def T_def)
  show "recentCatches (catchItem_score now item s) =
      catch_window now (recentCatches s @ [(now, sp_value (store (itemPool s) ! item))])"
    by (simp add: catch_window_def)
  then show "performanceScore (catchItem_score now item s) =
      spec_performanceScore (recentCatches (catchItem_score now item s))
        (combo (catchItem_score now item s))"
    using U(1) by (simp add: ps Tr Tc)
  show "0 \<le> performanceScore (catchItem_score now item s)" using U(2) by (simp add: ps)
  show "performanceScore (catchItem_score now item s) \<le> 10" using U(3) by (simp add: ps)
  show "itemSpeed (catchItem_score now item s) =
      spec_itemSpeed (difficulty s) (performanceScore (catchItem_score now item s))
        + (if score (catchItem_score now item s) mod 100 = 0
              \<and> 0 < score (catchItem_score now item s) then 20 else 0)"
    unfolding ps sc
    by (simp add: catchItem_score_def Let_def check_levelUp_speed T_def [symmetric]
        ups_speed Td)
  show "spawnTimerDelay (catchItem_score now item s) =
      (if score (catchItem_score now item s) mod 100 = 0
          \<and> 0 < score (catchItem_score now item s)
       then max 500 (spec_spawnDelay (difficulty s)
                       (performanceScore (catchItem_score now item s)) - 100)
       else spec_spawnDelay (difficulty s) (performanceScore (catchItem_score now item s)))"
    unfolding ps sc
    by (simp add: catchItem_score_def Let_def check_levelUp_speed T_def [symmetric]
        ups_delay Td)
qed


lemma miss_perf_rule:
  assumes i: "item < length (store (itemPool s))"
    and t: "itemType (store (itemPool s) ! item) \<noteq> Some Bomb"
    and sh: "Shield \<notin> activePowerups s"
    and r: "list_all (\<lambda>c. 0 \<le> snd c) (recentCatches s)"
  shows "recentCatches (missItem item s) = recentCatches s
    \<and> combo (missItem item s) = 0
    \<and> performanceScore (missItem item s) = spec_performanceScore (recentCatches s) 0
    \<and> 0 \<le> performanceScore (missItem item s)
    \<and> performanceScore (missItem item s) \<le> 10
    \<and> itemSpeed (missItem item s) =
          spec_itemSpeed (difficulty s) (performanceScore (missItem item s))
    \<and> spawnTimerDelay (missItem item s) =
          spec_spawnDelay (difficulty s) (performanceScore (missItem item s))"
proof -
  define T where "T = s\<lparr>combo := 0, perfectStreak := 0, missStreak := missStreak s + 1,
      lives := lives s - 1, missedItems := missedItems s + 1\<rparr>"
  have Tc: "combo T = 0" and Td: "difficulty T = difficulty s"
    and Tr: "recentCatches T = recentCatches s"
    by (simp_all add: T_def)
  have c': "0 \<le> combo T" by (simp add: Tc)
  have r': "list_all (\<lambda>c. 0 \<le> snd c) (recentCatches T)" using r by (simp add: Tr)
  note U = ups_spec [OF c' r']
  have e: "missItem item s =
      (if lives (release_item item (updatePerformanceScore T)) \<le> 0
       then gameOver (release_item item (updatePerformanceScore T))
       else release_item item (updatePerformanceScore T))"
    using i t sh by (simp add: missItem_def Let_def T_def)
  have ps: "performanceScore (missItem item s) = performanceScore (updatePerformanceScore T)"
    and rc: "recentCatches (missItem item s) = recentCatches s"
    and cm: "combo (missItem item s) = 0"
    and sp: "itemSpeed (missItem item s) = itemSpeed (updatePerformanceScore T)"
    and dl: "spawnTimerDelay (missItem item s) = spawnTimerDelay (updatePerformanceScore T)"
    unfolding e by (simp_all add: Tr Tc)
  show ?thesis
    using U by (simp add: ps rc cm sp dl ups_speed ups_delay Td Tr Tc)
qed

lemma item_ok_simps [simp]:
  "item_ok item_createFunc"
  "item_ok (item_resetFunc it)"
  "item_ok (setActive b it) = item_ok it"
  "item_ok (setVisible b it) = item_ok it"
  "item_ok (it\<lparr>itemType := Some Gold, sp_value := 50\<rparr>)"
  by (simp_all add: item_ok_def item_createFunc_def item_resetFunc_def setActive_def
      setVisible_def)

lemma item_ok_spawn:
  "item_ok (it\<lparr>sp_x := x, sp_y := y, sp_speed := snd (snd (spawn_choice r spd)),
        itemType := Some (fst (spawn_choice r spd)),
        sp_value := fst (snd (spawn_choice r spd)), affectedByGravity := True\<rparr>)"
  by (simp add: item_ok_def spawn_choice_def)

lemma list_all_on_obj:
  "list_all P st \<Longrightarrow> (\<And>it. P it \<Longrightarrow> P (f it)) \<Longrightarrow> list_all P (on_obj r f st)"
  by (auto simp: on_obj_def list_all_length nth_list_update)

lemma store_ok_get:
  assumes "list_all item_ok (store p)"
  shows "list_all item_ok (store (snd (get item_createFunc item_resetFunc now p)))"
proof (cases p rule: get_cases)
  case pop
  with assms show ?thesis by (simp add: get_pop list_all_on_obj)
next
  case create
  with assms show ?thesis by (simp add: get_create list_all_on_obj)
next
  case (recycle a as)
  with assms show ?thesis by (simp add: get_recycle list_all_on_obj)
next
  case overflow
  with assms show ?thesis by (simp add: get_overflow list_all_on_obj)
qed

lemma store_ok_release:
  "list_all item_ok (store p) \<Longrightarrow> list_all item_ok (store (release item_resetFunc i p))"
  by (simp add: release_def list_all_on_obj)

lemma store_ok_spawn_one:
  assumes "list_all item_ok (store (itemPool s))"
  shows "list_all item_ok (store (itemPool (spawn_one x r now s)))"
  unfolding spawn_one_pool
  using store_ok_get [OF assms, of now]
  by (simp add: on_obj_def list_all_length nth_list_update item_ok_spawn)

lemma store_ok_spawn_loop:
  "list_all item_ok (store (itemPool s)) \<Longrightarrow>
   list_all item_ok (store (itemPool (spawn_loop k i xs rands now s)))"
  by (induction k arbitrary: i s) (simp_all add: store_ok_spawn_one)

lemma store_ok_spawnItem:
  "list_all item_ok (store (itemPool s)) \<Longrightarrow>
   list_all item_ok (store (itemPool (spawnItem n xs rands now s)))"
  by (simp add: spawnItem_def Let_def store_ok_spawn_loop)

lemma scene_inv_spawnItem: "scene_inv s \<Longrightarrow> scene_inv (spawnItem n xs rands now s)"
  by (simp add: scene_inv_def store_ok_spawnItem)

lemma scene_inv_release: "scene_inv s \<Longrightarrow> scene_inv (release_item i s)"
  by (simp add: scene_inv_def store_ok_release)

lemma scene_inv_gameOver: "scene_inv s \<Longrightarrow> scene_inv (gameOver s)"
  by (simp add: scene_inv_def clear_def)

lemma scene_inv_catch_score:
  assumes inv: "scene_inv s" and v: "0 \<le> sp_value (store (itemPool s) ! item)"
  shows "scene_inv (catchItem_score now item s)"
proof -
  have c: "0 \<le> combo s" and r: "list_all (\<lambda>c. 0 \<le> snd c) (recentCatches s)"
    using inv by (simp_all add: scene_inv_def)
  note P = catch_score_perf [OF c r v, of now]
  have "list_all (\<lambda>c. 0 \<le> snd c) (recentCatches (catchItem_score now item s))"
    using r v by (simp add: list_all_iff)
  then show ?thesis
    using inv P(3,4) by (simp add: scene_inv_def store_ok_release)
qed

lemma scene_inv_lives:
  "scene_inv s \<Longrightarrow> l \<le> 5 \<Longrightarrow> scene_inv (s\<lparr>lives := l\<rparr>)"
  by (simp add: scene_inv_def)

lemma scene_inv_bomb_hit: "scene_inv s \<Longrightarrow> scene_inv (bomb_hit item s)"
  by (simp add: bomb_hit_def Let_def scene_inv_def store_ok_release clear_def gameOver_def
      release_item_def)

lemma scene_inv_mystery: "scene_inv s \<Longrightarrow> scene_inv (activateMystery d item s)"
  by (simp add: activateMystery_def scene_inv_def store_ok_release release_item_def)

lemma scene_inv_effects:
  "scene_inv (activateFreeze s) = scene_inv s"
  "scene_inv (activateGlitchEffect s) = scene_inv s"
  "scene_inv (activateMultiplier s) = scene_inv s"
  "scene_inv (activateVirusEffect s) = scene_inv s"
  "scene_inv (activateOvercharge s) = scene_inv s"
  by (simp_all add: scene_inv_def)

lemma scene_inv_convert:
  "scene_inv s \<Longrightarrow> scene_inv (convert_bomb item s)"
  by (simp add: scene_inv_def list_all_on_obj)

lemma convert_bomb_value:
  "item < length (store (itemPool s)) \<Longrightarrow>
   sp_value (store (itemPool (convert_bomb item s)) ! item) = 50"
  by (simp add: on_obj_def)

lemma scene_inv_catchItem:
  assumes inv: "scene_inv s"
  shows "scene_inv (catchItem now d item s)"
proof (cases "item < length (store (itemPool s))")
  case False
  with inv show ?thesis by (simp add: catchItem_def)
next
  case i: True
  have ok: "item_ok (store (itemPool s) ! item)"
    using inv i by (simp add: scene_inv_def list_all_length)
  let ?ty = "itemType (store (itemPool s) ! item)"
  consider (freeze) "?ty = Some Freeze" | (health) "?ty = Some Health"
    | (mystery) "?ty = Some Mystery"
    | (conv) "?ty = Some Bomb" "Converter \<in> activePowerups s"
    | (bomb) "?ty = Some Bomb" "Converter \<notin> activePowerups s"
    | (glitch) "?ty = Some Glitch" | (mult) "?ty = Some Multiplier"
    | (virus) "?ty = Some Virus"
    | (other) "?ty \<notin> {Some Freeze, Some Health, Some Mystery, Some Bomb, Some Glitch,
         Some Multiplier, Some Virus}"
    by blast
  then show ?thesis
  proof cases
    case freeze
    with i inv show ?thesis
      by (simp add: catchItem_def Let_def scene_inv_release scene_inv_effects)
  next
    case health
    have "scene_inv (s\<lparr>lives := min (lives s + 1) 5\<rparr>)"
      by (rule scene_inv_lives [OF inv]) simp
    with i health show ?thesis
      by (simp add: catchItem_def Let_def scene_inv_release)
  next
    case mystery
    with i inv show ?thesis
      by (simp add: catchItem_def Let_def scene_inv_mystery)
  next
    case conv
    have v: "0 \<le> sp_value (store (itemPool (convert_bomb item s)) ! item)"
      using i by (simp add: on_obj_def)
    have "scene_inv (catchItem_score now item (convert_bomb item s))"
      by (rule scene_inv_catch_score [OF scene_inv_convert [OF inv] v])
    with i conv show ?thesis by (simp add: catchItem_def Let_def)
  next
    case bomb
    with i inv show ?thesis
      by (simp add: catchItem_def Let_def scene_inv_bomb_hit)
  next
    case glitch
    have v: "0 \<le> sp_value (store (itemPool (activateGlitchEffect s)) ! item)"
      using ok glitch by (simp add: item_ok_def)
    have "scene_inv (catchItem_score now item (activateGlitchEffect s))"
      by (rule scene_inv_catch_score [OF _ v]) (simp add: scene_inv_effects inv)
    with i glitch show ?thesis by (simp add: catchItem_def Let_def)
  next
    case mult
    have v: "0 \<le> sp_value (store (itemPool (activateMultiplier s)) ! item)"
      using ok mult by (simp add: item_ok_def)
    have "scene_inv (catchItem_score now item (activateMultiplier s))"
      by (rule scene_inv_catch_score [OF _ v]) (simp add: scene_inv_effects inv)
    with i mult show ?thesis by (simp add: catchItem_def Let_def)
  next
    case virus
    with i inv show ?thesis
      by (simp add: catchItem_def Let_def scene_inv_release scene_inv_effects)
  next
    case other
    then have v: "0 \<le> sp_value (store (itemPool s) ! item)"
      using ok by (auto simp: item_ok_def)
    have "scene_inv (catchItem_score now item s)"
      by (rule scene_inv_catch_score [OF inv v])
    with i other show ?thesis by (simp add: catchItem_def Let_def)
  qed
qed

lemma scene_inv_missItem:
  assumes inv: "scene_inv s"
  shows "scene_inv (missItem item s)"
proof (cases "item < length (store (itemPool s))")
  case False
  with inv show ?thesis by (simp add: missItem_def)
next
  case i: True
  consider (bomb) "itemType (store (itemPool s) ! item) = Some Bomb"
    | (shield) "itemType (store (itemPool s) ! item) \<noteq> Some Bomb" "Shield \<in> activePowerups s"
    | (plain) "itemType (store (itemPool s) ! item) \<noteq> Some Bomb" "Shield \<notin> activePowerups s"
    by blast
  then show ?thesis
  proof cases
    case bomb
    with i inv show ?thesis by (simp add: missItem_def scene_inv_release)
  next
    case shield
    with i inv show ?thesis
      by (simp add: missItem_def Let_def scene_inv_def store_ok_release release_item_def)
  next
    case plain
    have r: "list_all (\<lambda>c. 0 \<le> snd c) (recentCatches s)"
      using inv by (simp add: scene_inv_def)
    note M = miss_perf_rule [OF i plain r]
    have l: "lives (missItem item s) = lives s - 1"
      using miss_unshielded [OF i plain] by simp
    have st: "list_all item_ok (store (itemPool (missItem item s)))"
      using i plain inv
      by (simp add: missItem_def Let_def scene_inv_def store_ok_release clear_def)
    show ?thesis
      using inv M l st by (simp add: scene_inv_def)
  qed
qed

lemma scene_inv_spikeHit: "scene_inv s \<Longrightarrow> scene_inv (spikeHit s)"
  by (simp add: spikeHit_def Let_def scene_inv_def gameOver_def clear_def)

lemma scene_inv_collect: "scene_inv s \<Longrightarrow> scene_inv (collectPowerup ty s)"
  by (cases ty) (simp_all add: collectPowerup_def scene_inv_def)

lemma scene_inv_destroyBomb: "scene_inv s \<Longrightarrow> scene_inv (destroyBomb bomb s)"
  by (simp add: destroyBomb_def scene_inv_def store_ok_release release_item_def)

lemma scene_inv_callback: "scene_inv s \<Longrightarrow> scene_inv (run_callback cb s)"
  by (cases cb) (simp_all add: scene_inv_def)

lemma scene_inv_timers: "scene_inv (s\<lparr>timers := ts\<rparr>) = scene_inv s"
  by (simp add: scene_inv_def)

lemma scene_inv_fire_timer: "scene_inv s \<Longrightarrow> scene_inv (fire_timer i s)"
  by (simp add: fire_timer_def scene_inv_callback scene_inv_timers)

lemma scene_inv_step: "scene_inv s \<Longrightarrow> scene_inv (scene_step s e)"
  by (cases e)
    (simp_all add: scene_inv_spawnItem scene_inv_catchItem scene_inv_missItem
      scene_inv_spikeHit scene_inv_collect scene_inv_destroyBomb scene_inv_release
      scene_inv_effects scene_inv_fire_timer, simp add: scene_inv_def)

lemma scene_inv_run: "scene_inv s \<Longrightarrow> scene_inv (scene_run s evs)"
  unfolding scene_run_def
  by (induction evs arbitrary: s) (simp_all add: scene_inv_step)

lemma store_ok_prefill:
  "list_all item_ok (store p) \<Longrightarrow> list_all item_ok (store (prefill k item_createFunc p))"
proof (induction k arbitrary: p)
  case 0
  then show ?case by simp
next
  case (Suc k)
  have "list_all item_ok (on_obj (length (store p)) (setVisible False \<circ> setActive False)
      (store p @ [item_createFunc]))"
    using Suc.prems by (simp add: list_all_on_obj)
  then show ?case
    by (simp add: Suc.IH createManagedObject_def)
qed

lemma scene_inv_create: "scene_inv (create upg diff plevel utility)"
  by (simp add: scene_inv_def create_def Let_def setupObjectPools_def new_ObjectPool_def
      store_ok_prefill)

lemma lives_catchItem:
  "lives (catchItem now d item s) =
     (if item < length (store (itemPool s))
         \<and> (itemType (store (itemPool s) ! item) = Some Health
            \<or> itemType (store (itemPool s) ! item) = Some Mystery \<and> d = 1)
      then min (lives s + 1) 5
      else if item < length (store (itemPool s))
         \<and> itemType (store (itemPool s) ! item) = Some Bomb \<and> Converter \<notin> activePowerups s
      then lives s - 1
      else lives s)"
  by (simp add: catchItem_def Let_def activateMystery_def bomb_hit_def)

lemma lives_missItem: "lives (missItem item s) \<le> lives s"
  by (simp add: missItem_def Let_def)

lemma lives_spikeHit: "lives (spikeHit s) \<le> lives s"
  by (simp add: spikeHit_def Let_def)

lemma lives_collect: "lives (collectPowerup ty s) = lives s"
  by (cases ty) (simp_all add: collectPowerup_def)

lemma lives_callback: "lives (run_callback cb s) = lives s"
  by (cases cb) simp_all

lemma lives_step:
  "(\<exists>now d item. e = CatchItem now d item) \<or> lives (scene_step s e) \<le> lives s"
  by (cases e)
    (simp_all add: lives_missItem lives_spikeHit lives_collect destroyBomb_def
      fire_timer_def lives_callback)

text \<open>
  Claim C9. In every state that a run reaches from \<^verbatim>\<open>create()\<close> through the handlers of
  the scene, the lives are at most 5. A catch sets the lives to \<open>min (lives + 1) 5\<close> for a
  health item and for the extra-life outcome of a mystery item, takes one life for a
  bomb caught without the converter, and leaves them alone otherwise; every other
  handler leaves the lives where they are or lowers them.
\<close>

theorem lives_bound:
  "lives (scene_run (create upg diff plevel utility) evs) \<le> 5
   \<and> lives (catchItem now d item s) =
       (if item < length (store (itemPool s))
           \<and> (itemType (store (itemPool s) ! item) = Some Health
              \<or> itemType (store (itemPool s) ! item) = Some Mystery \<and> d = 1)
        then min (lives s + 1) 5
        else if item < length (store (itemPool s))
           \<and> itemType (store (itemPool s) ! item) = Some Bomb \<and> Converter \<notin> activePowerups s
        then lives s - 1
        else lives s)
   \<and> ((\<exists>now d item. e = CatchItem now d item) \<or> lives (scene_step s e) \<le> lives s)"
proof -
  have "scene_inv (scene_run (create upg diff plevel utility) evs)"
    by (rule scene_inv_run) (rule scene_inv_create)
  then have "lives (scene_run (create upg diff plevel utility) evs) \<le> 5"
    by (simp add: scene_inv_def)
  then show ?thesis
    using lives_catchItem [of now d item s] lives_step [of e s] by blast
qed








section \<open>The cap on active items\<close>

lemma get_active_upper:
  "length (active (snd (get c rf now p))) \<le> length (active p) + 1"
proof (cases p rule: get_cases)
  case pop
  then show ?thesis by (simp add: get_pop)
next
  case create
  then show ?thesis by (simp add: get_create)
next
  case (recycle a as)
  then show ?thesis by (simp add: get_recycle)
next
  case overflow
  then show ?thesis by (simp add: get_overflow)
qed

lemma spawn_one_upper:
  "length (active (itemPool (spawn_one x r now s))) \<le> length (active (itemPool s)) + 1"
  using get_active_upper [of item_createFunc item_resetFunc now "itemPool s"]
  by (simp add: spawn_one_pool)

lemma spawn_loop_upper:
  "length (active (itemPool (spawn_loop k i xs rands now s)))
     \<le> length (active (itemPool s)) + k"
proof (induction k arbitrary: i s)
  case 0
  show ?case by simp
next
  case (Suc k)
  have "length (active (itemPool (spawn_loop k (Suc i) xs rands now
          (spawn_one (xs i) (rands i) now s))))
      \<le> length (active (itemPool (spawn_one (xs i) (rands i) now s))) + k"
    by (rule Suc.IH)
  also have "\<dots> \<le> length (active (itemPool s)) + 1 + k"
    using spawn_one_upper [of "xs i" "rands i" now s] by simp
  finally show ?case by simp
qed

lemma spawn_one_len:
  assumes "pool (itemPool s) \<noteq> []"
  shows "length (active (itemPool (spawn_one x r now s))) = length (active (itemPool s)) + 1"
    "length (pool (itemPool (spawn_one x r now s))) = length (pool (itemPool s)) - 1"
  using assms by (simp_all add: spawn_one_pool get_pop)

lemma spawn_loop_len:
  "k \<le> length (pool (itemPool s)) \<Longrightarrow>
   length (active (itemPool (spawn_loop k i xs rands now s))) = length (active (itemPool s)) + k
   \<and> length (pool (itemPool (spawn_loop k i xs rands now s))) = length (pool (itemPool s)) - k"
proof (induction k arbitrary: i s)
  case 0
  show ?case by simp
next
  case (Suc k)
  then have ne: "pool (itemPool s) \<noteq> []" by auto
  note L = spawn_one_len [OF ne, of "xs i" "rands i" now]
  have "k \<le> length (pool (itemPool (spawn_one (xs i) (rands i) now s)))"
    using Suc.prems L(2) by simp
  from Suc.IH [OF this, of "Suc i"] L show ?case by simp
qed

lemma spawnItem_noop:
  "(if qualityLevel (performanceManager s) = 0 then 8 else 15)
      \<le> int (length (active (itemPool s))) \<Longrightarrow>
   spawnItem n12 xs rands now s = s"
  by (simp add: spawnItem_def Let_def)

lemma spawnItem_upper:
  "int (length (active (itemPool (spawnItem n12 xs rands now s))))
     \<le> max (int (length (active (itemPool s))))
           ((if qualityLevel (performanceManager s) = 0 then 8 else 15) - 1
             + max 0 (if isChaosMode s then n12 else 1))"
proof (cases "(if qualityLevel (performanceManager s) = 0 then 8 else 15)
      \<le> int (length (active (itemPool s)))")
  case True
  then show ?thesis by (simp add: spawnItem_noop)
next
  case False
  define k where "k = nat (if isChaosMode s then n12 else 1)"
  have e: "spawnItem n12 xs rands now s = spawn_loop k 0 xs rands now s"
    using False by (simp add: spawnItem_def Let_def k_def)
  have "length (active (itemPool (spawn_loop k 0 xs rands now s)))
      \<le> length (active (itemPool s)) + k"
    by (rule spawn_loop_upper)
  then have "int (length (active (itemPool (spawn_loop k 0 xs rands now s))))
      \<le> int (length (active (itemPool s))) + int k" by simp
  moreover have "int k = max 0 (if isChaosMode s then n12 else 1)"
    by (simp add: k_def)
  ultimately show ?thesis
    using False unfolding e by (simp split: if_splits)
qed

text \<open>
  Claim C10, amended. \<^verbatim>\<open>spawnItem\<close> returns the state unchanged whenever the number of
  active items is at least the cap, 15 or 8 at quality level 0. The cap is tested once,
  before the loop, so a call that passes the test adds as many items as the loop has
  rounds: the count after the call is at most the larger of the count before and the cap
  minus one plus the number of rounds. Outside chaos mode there is one round and the
  count stays at 15 or below; in chaos mode, with one or two rounds, it stays at 16 or
  below.
\<close>

theorem spawn_cap:
  "((if qualityLevel (performanceManager s) = 0 then 8 else 15)
        \<le> int (length (active (itemPool s)))
      \<longrightarrow> spawnItem n12 xs rands now s = s)
   \<and> int (length (active (itemPool (spawnItem n12 xs rands now s))))
       \<le> max (int (length (active (itemPool s))))
             ((if qualityLevel (performanceManager s) = 0 then 8 else 15) - 1
               + max 0 (if isChaosMode s then n12 else 1))
   \<and> (\<not> isChaosMode s \<longrightarrow>
        int (length (active (itemPool (spawnItem n12 xs rands now s))))
          \<le> max (int (length (active (itemPool s)))) 15)
   \<and> (n12 \<le> 2 \<longrightarrow>
        int (length (active (itemPool (spawnItem n12 xs rands now s))))
          \<le> max (int (length (active (itemPool s)))) 16)"
proof -
  note U = spawnItem_upper [of n12 xs rands now s]
  have 3: "\<not> isChaosMode s \<longrightarrow>
        int (length (active (itemPool (spawnItem n12 xs rands now s))))
          \<le> max (int (length (active (itemPool s)))) 15"
    using U by (auto split: if_splits)
  have 4: "n12 \<le> 2 \<longrightarrow>
        int (length (active (itemPool (spawnItem n12 xs rands now s))))
          \<le> max (int (length (active (itemPool s)))) 16"
    using U by (auto split: if_splits)
  from U 3 4 spawnItem_noop [of s n12 xs rands now] show ?thesis by blast
qed

lemma spawn_choice_giant: "spawn_choice (3/8) spd = (Giant, 100, spd * (6/10))"
  by (simp add: spawn_choice_def)

lemma play_chaos:
  assumes c: "calm s"
    and ty: "fst (spawn_choice r (itemSpeed s)) \<in> {Regular, Silver, Gold, Giant}"
  shows "isChaosMode (play r now s) =
     (isChaosMode s \<or> (score (play r now s) mod 100 = 0 \<and> 0 < score (play r now s)
        \<and> (level s + 1) mod 5 = 0))"
    "performanceManager (play r now s) = performanceManager s"
proof -
  note S = spawn_of_calm [OF c, of r]
  have v: "24 < length (store (itemPool (spawn_of r s)))" using S(3) by simp
  have t: "itemType (store (itemPool (spawn_of r s)) ! 24)
      \<in> {Some Regular, Some Silver, Some Gold, Some Giant}"
    using S(4) ty by auto
  have e: "play r now s = catchItem_score now 24 (spawn_of r s)"
    unfolding play_def by (rule catchItem_scoring [OF v t])
  show "isChaosMode (play r now s) =
     (isChaosMode s \<or> (score (play r now s) mod 100 = 0 \<and> 0 < score (play r now s)
        \<and> (level s + 1) mod 5 = 0))"
    unfolding e by (simp only: catch_score_chaos spawn_of_frame)
  show "performanceManager (play r now s) = performanceManager s"
    unfolding e by (simp add: spawn_of_def)
qed

lemma play_step:
  assumes c: "calm s"
    and ty: "spawn_choice r (itemSpeed s) = (t, v, spd)" "t \<in> {Gold, Giant}"
    and cm: "combo s = k" "k < 3" "0 \<le> k"
    and st: "score s = a" "level s = l" "\<not> isChaosMode s"
    and nx: "(a + v * l) mod 100 = 0" "0 < a + v * l"
  shows "calm (play r now s)" "score (play r now s) = a + v * l"
    "combo (play r now s) = k + 1" "level (play r now s) = l + 1"
    "isChaosMode (play r now s) = ((l + 1) mod 5 = 0)"
    "performanceManager (play r now s) = performanceManager s"
proof -
  have t: "fst (spawn_choice r (itemSpeed s)) \<in> {Regular, Silver, Gold, Giant}"
    using ty by auto
  note P = play_plain [OF c t, of now]
  note L = play_level [OF c t, of now]
  note C = play_chaos [OF c t, of now]
  have m: "min ((k + 1) div 5 + 1) 5 = 1" using cm by simp
  show "calm (play r now s)" by (rule P(1))
  show sc: "score (play r now s) = a + v * l"
    using P(2) ty cm st m by simp
  show "combo (play r now s) = k + 1" using P(3) cm by simp
  show "level (play r now s) = l + 1" using L sc nx st by simp
  show "isChaosMode (play r now s) = ((l + 1) mod 5 = 0)"
    using C(1) sc nx st by simp
  show "performanceManager (play r now s) = performanceManager s" by (rule C(2))
qed

lemma start_quality:
  "qualityLevel (performanceManager start_scene) = 1" "\<not> isChaosMode start_scene"
  by (simp_all add: start_scene_def create_def Let_def new_PerformanceManager_def)

lemma chaos_scene_eval:
  "calm chaos_scene" "score chaos_scene = 700" "level chaos_scene = 5"
  "isChaosMode chaos_scene" "qualityLevel (performanceManager chaos_scene) = 1"
proof -
  define s1 where "s1 = play (3/8) 1000 start_scene"
  define s2 where "s2 = play (1/5) 2000 s1"
  define s3 where "s3 = play (3/8) 3000 s2"
  have e: "chaos_scene = play (1/5) 4000 s3"
    by (simp add: chaos_scene_def s1_def s2_def s3_def)
  note A = play_step [OF calm_start spawn_choice_giant, of 0 0 1 1000, folded s1_def]
  have a: "calm s1" "score s1 = 100" "combo s1 = 1" "level s1 = 2" "\<not> isChaosMode s1"
    "performanceManager s1 = performanceManager start_scene"
    using A by (simp_all add: start_fields start_quality)
  note B = play_step [OF a(1) spawn_choice_gold, of 1 100 2 2000, folded s2_def]
  have b: "calm s2" "score s2 = 200" "combo s2 = 2" "level s2 = 3" "\<not> isChaosMode s2"
    "performanceManager s2 = performanceManager start_scene"
    using B a by simp_all
  note C = play_step [OF b(1) spawn_choice_giant, of 2 200 3 3000, folded s3_def]
  have c: "calm s3" "score s3 = 500" "combo s3 = 3" "level s3 = 4" "\<not> isChaosMode s3"
    "performanceManager s3 = performanceManager start_scene"
    using C b by simp_all
  have t: "fst (spawn_choice (1/5) (itemSpeed s3)) \<in> {Regular, Silver, Gold, Giant}"
    by (simp add: spawn_choice_gold)
  note P = play_plain [OF c(1) t, of 4000, folded e]
  note L = play_level [OF c(1) t, of 4000, folded e]
  note D = play_chaos [OF c(1) t, of 4000, folded e]
  show "calm chaos_scene" by (rule P(1))
  show sc: "score chaos_scene = 700" using P(2) c by (simp add: spawn_choice_gold)
  show "level chaos_scene = 5" using L sc c by simp
  show "isChaosMode chaos_scene" using D(1) sc c by simp
  show "qualityLevel (performanceManager chaos_scene) = 1"
    using D(2) c by (simp add: start_quality)
qed

lemma double_spawns_len:
  assumes q: "qualityLevel (performanceManager s) \<noteq> 0" and ch: "isChaosMode s"
    and a: "active (itemPool s) = []" and p: "length (pool (itemPool s)) = 25"
  shows "k \<le> 8 \<Longrightarrow>
     length (active (itemPool (double_spawns k s))) = 2 * k
     \<and> length (pool (itemPool (double_spawns k s))) = 25 - 2 * k
     \<and> isChaosMode (double_spawns k s)
     \<and> performanceManager (double_spawns k s) = performanceManager s"
proof (induction k)
  case 0
  show ?case using a p ch by simp
next
  case (Suc k)
  define u where "u = double_spawns k s"
  have I: "length (active (itemPool u)) = 2 * k" "length (pool (itemPool u)) = 25 - 2 * k"
    "isChaosMode u" "performanceManager u = performanceManager s"
    using Suc by (simp_all add: u_def)
  have lt: "\<not> (if qualityLevel (performanceManager u) = 0 then 8 else 15)
      \<le> int (length (active (itemPool u)))"
    using I q Suc.prems by simp
  have e: "spawnItem 2 (\<lambda>_. 100) (\<lambda>_. 9/10) 0 u
      = spawn_loop 2 0 (\<lambda>_. 100) (\<lambda>_. 9/10) 0 u"
    using lt I(3) by (simp add: spawnItem_def Let_def)
  have "2 \<le> length (pool (itemPool u))" using I(2) Suc.prems by simp
  note L = spawn_loop_len [OF this, of 0 "\<lambda>_. 100" "\<lambda>_. 9/10" 0]
  have d: "double_spawns (Suc k) s = spawn_loop 2 0 (\<lambda>_. 100) (\<lambda>_. 9/10) 0 u"
    using e by (simp add: u_def)
  show ?case
    unfolding d using L I Suc.prems by simp
qed

text \<open>
  Claim C10 as stated fails in chaos mode. A giant, a gold, a giant and a gold item
  caught in a new run give 700 points and level 5, which switches chaos mode on; seven
  calls of \<^verbatim>\<open>spawnItem\<close> with two rounds each leave 14 active items, and the next call
  passes the test at 14 and leaves 16.
\<close>

theorem spawn_cap_counterexample:
  "isChaosMode (double_spawns 7 chaos_scene)
   \<and> qualityLevel (performanceManager (double_spawns 7 chaos_scene)) = 1
   \<and> length (active (itemPool (double_spawns 7 chaos_scene))) = 14
   \<and> length (active (itemPool
        (spawnItem 2 (\<lambda>_. 100) (\<lambda>_. 9/10) 0 (double_spawns 7 chaos_scene)))) = 16
   \<and> \<not> length (active (itemPool
        (spawnItem 2 (\<lambda>_. 100) (\<lambda>_. 9/10) 0 (double_spawns 7 chaos_scene)))) \<le> 15"
proof -
  have q: "qualityLevel (performanceManager chaos_scene) \<noteq> 0"
    using chaos_scene_eval(5) by simp
  have a: "active (itemPool chaos_scene) = []"
    and p: "length (pool (itemPool chaos_scene)) = 25"
    using chaos_scene_eval(1) by (simp_all add: calm_def)
  have 7: "(7::nat) \<le> 8" and 8: "(8::nat) \<le> 8" by simp_all
  note A = double_spawns_len [OF q chaos_scene_eval(4) a p 7]
  note B = double_spawns_len [OF q chaos_scene_eval(4) a p 8]
  have e: "double_spawns 8 chaos_scene
      = spawnItem 2 (\<lambda>_. 100) (\<lambda>_. 9/10) 0 (double_spawns 7 chaos_scene)"
    by (simp add: eval_nat_numeral)
  show ?thesis using A B chaos_scene_eval(5) unfolding e by simp
qed

text \<open>
  At 16 active items the call changes nothing; in a new run, outside chaos mode, one
  call leaves at most 15 items; in chaos mode at 14 items a call of two rounds leaves at
  most 16.
\<close>

theorem spawn_cap_witness:
  "(15 \<le> int (length (active (itemPool (double_spawns 8 chaos_scene))))
      \<and> spawnItem 2 (\<lambda>_. 100) (\<lambda>_. 9/10) 0 (double_spawns 8 chaos_scene)
          = double_spawns 8 chaos_scene)
   \<and> (\<not> isChaosMode start_scene
      \<and> int (length (active (itemPool (spawnItem 2 (\<lambda>_. 100) (\<lambda>_. 9/10) 0 start_scene))))
          \<le> 15)
   \<and> ((2::int) \<le> 2
      \<and> int (length (active (itemPool
            (spawnItem 2 (\<lambda>_. 100) (\<lambda>_. 9/10) 0 (double_spawns 7 chaos_scene)))))
          \<le> 16)"
proof -
  have q: "qualityLevel (performanceManager chaos_scene) \<noteq> 0"
    using chaos_scene_eval(5) by simp
  have a: "active (itemPool chaos_scene) = []"
    and p: "length (pool (itemPool chaos_scene)) = 25"
    using chaos_scene_eval(1) by (simp_all add: calm_def)
  have 7: "(7::nat) \<le> 8" and 8: "(8::nat) \<le> 8" by simp_all
  note A = double_spawns_len [OF q chaos_scene_eval(4) a p 7]
  note B = double_spawns_len [OF q chaos_scene_eval(4) a p 8]
  have z: "active (itemPool start_scene) = []"
    using calm_start by (simp add: calm_def)
  have 1: "15 \<le> int (length (active (itemPool (double_spawns 8 chaos_scene))))
      \<and> spawnItem 2 (\<lambda>_. 100) (\<lambda>_. 9/10) 0 (double_spawns 8 chaos_scene)
          = double_spawns 8 chaos_scene"
    using spawn_cap [of "double_spawns 8 chaos_scene" 2 "\<lambda>_. 100" "\<lambda>_. 9/10" 0]
      B chaos_scene_eval(5) by simp
  have 2: "\<not> isChaosMode start_scene
      \<and> int (length (active (itemPool (spawnItem 2 (\<lambda>_. 100) (\<lambda>_. 9/10) 0 start_scene))))
          \<le> 15"
    using spawn_cap [of start_scene 2 "\<lambda>_. 100" "\<lambda>_. 9/10" 0] start_quality z by simp
  have 3: "(2::int) \<le> 2
      \<and> int (length (active (itemPool
            (spawnItem 2 (\<lambda>_. 100) (\<lambda>_. 9/10) 0 (double_spawns 7 chaos_scene)))))
          \<le> 16"
    using spawn_cap [of "double_spawns 7 chaos_scene" 2 "\<lambda>_. 100" "\<lambda>_. 9/10" 0] A by simp
  from 1 2 3 show ?thesis by blast
qed

section \<open>Random draws and clock readings\<close>







end
